theory Spec2Isabelle
  imports Complex_Main "HOL-Library.Signed_Division"
begin

section \<open>The Metropolis driver of MCGPU (src/Metropolis/Simulation.cpp)\<close>

text \<open>
  The driver is one class, \<open>Simulation\<close>, with a constructor, \<open>run\<close>, \<open>saveState\<close> and
  \<open>writePDB\<close>. Everything else it touches (the box, the two energy back ends, the random
  source, the state writer, \<open>toString\<close>, \<open>kBoltz\<close>) is declared in headers that are not part
  of the sources at hand; those collaborators are parameters of the model, collected in the
  record \<open>collaborators\<close>.

  Conventions of the embedding.
  \<^item> The members \<open>stepStart\<close> and \<open>simSteps\<close> are declared in Simulation.h, which is not
    available, so their width is unknown: they and the arithmetic on them are mathematical
    integers. The loop variable \<open>move\<close> is declared \<open>int\<close> in the source: \<open>loop_int\<close> and
    \<open>run_int\<close> model it as a 32-bit integer whose overflow is undefined behaviour, and \<open>loop\<close>
    and \<open>run\<close> are the same loop over mathematical integers, which \<open>loop_int\<close> and \<open>run_int\<close>
    agree with whenever every step index fits in \<open>int\<close>.
  \<^item> \<open>Real\<close> is a typedef of a header that is not available (the spec: a single configurable
    floating-point precision). A value of type \<open>Real\<close> is a real number, and the result of an
    arithmetic operation on \<open>Real\<close> is the exact result rounded by \<open>round_Real\<close>, the rounding of
    that format, a parameter. The exponent range (overflow, subnormal numbers) is not
    modelled; division by zero is, with the special values of IEEE 754.
  \<^item> The two acceptance ratios are computed in \<open>double\<close> and \<open>float\<close> from the counters;
    their rounding is not modelled, their division by zero is (\<open>fdiv\<close>).
  \<^item> Standard output, standard error and the files written are a list of events, in order.
  \<^item> The object behind the pointer \<open>box\<close> and the process-wide random source are threaded
    through the loop as explicit state.
\<close>

subsection \<open>Data\<close>

text \<open>Modelled from the spec: \<open>SimulationMode\<close> is declared in SimulationArgs.h (not available);
  the spec gives the two modes. The source only ever tests \<open>== SimulationMode::Parallel\<close>.\<close>

datatype SimulationMode = Serial | Parallel

text \<open>Modelled from the spec: \<open>SimulationArgs\<close> (SimulationArgs.h, not available), with the
  fields the driver reads. The type of \<open>fileType\<close> is a parameter.\<close>

record 'ft SimulationArgs =
  simulationMode :: SimulationMode
  filePath :: string
  fileType :: 'ft
  simulationName :: string
  stepCount :: int
  statusInterval :: int
  stateInterval :: int

text \<open>Modelled from the spec: \<open>Environment\<close> (declared outside the sources at hand), with the
  fields the driver reads.\<close>

record Environment =
  temp :: real
  randomseed :: int
  numOfMolecules :: int

text \<open>The result of a floating-point division whose operands are finite.\<close>

datatype fp = Fin real | PInf | NInf | NaN

definition fdiv :: "real \<Rightarrow> real \<Rightarrow> fp" where
  "fdiv x y =
     (if y \<noteq> 0 then Fin (x / y)
      else if x = 0 then NaN
      else if 0 < x then PInf else NInf)"

text \<open>What is sent to a stream with \<open><<\<close>: a string, an int, a Real or double, the result of
  a division, \<open>std::endl\<close>.\<close>

datatype item = S string | I int | R real | F fp | Endl

text \<open>Observable effects: a statement writing to \<open>std::cout\<close> or \<open>std::cerr\<close>, the call
  \<open>StateScanner::outputState(environment, molecules, moleculeCount, step, path)\<close>, the results
  file (its name and what is streamed into it) and the coordinate file (its name and the data
  \<open>writePDB\<close> formats).\<close>

datatype 'm event =
    Cout "item list"
  | Cerr "item list"
  | OutputState Environment 'm int int string
  | ResultsFile string "item list"
  | PDBFile string Environment 'm

text \<open>The collaborators of the driver. \<open>'b\<close> is the state of the Box object, \<open>'m\<close> the
  molecule array it hands out, \<open>'g\<close> the state of the shared random source. Operations of
  the box may draw from the random source, so they transform the pair of both. The energy
  functions only read (the contract of the external interface). \<open>round_Real\<close> is the
  rounding of the floating-point format behind the typedef \<open>Real\<close>.\<close>

record ('ft, 'b, 'm, 'g) collaborators =
  kBoltz :: real
  round_Real :: "real \<Rightarrow> real"
  ParallelCalcs_createBox :: "string \<Rightarrow> 'ft \<Rightarrow> int \<times> int \<Rightarrow> 'b option \<times> int \<times> int"
  SerialCalcs_createBox :: "string \<Rightarrow> 'ft \<Rightarrow> int \<times> int \<Rightarrow> 'b option \<times> int \<times> int"
  seed :: "int \<Rightarrow> 'g"
  randomReal :: "real \<Rightarrow> real \<Rightarrow> 'g \<Rightarrow> real \<times> 'g"
  getMolecules :: "'b \<Rightarrow> 'm"
  getEnvironment :: "'b \<Rightarrow> Environment"
  getMoleculeCount :: "'b \<Rightarrow> int"
  chooseMolecule :: "'b \<times> 'g \<Rightarrow> int \<times> 'b \<times> 'g"
  changeMolecule :: "int \<Rightarrow> 'b \<times> 'g \<Rightarrow> 'b \<times> 'g"
  rollback :: "int \<Rightarrow> 'b \<times> 'g \<Rightarrow> 'b \<times> 'g"
  ParallelCalcs_calcSystemEnergy :: "'b \<Rightarrow> real"
  SerialCalcs_calcSystemEnergy :: "'m \<Rightarrow> Environment \<Rightarrow> real"
  ParallelCalcs_calcMolecularEnergyContribution :: "'b \<Rightarrow> int \<Rightarrow> real"
  SerialCalcs_calcMolecularEnergyContribution :: "'m \<Rightarrow> Environment \<Rightarrow> int \<Rightarrow> real"
  toString :: "int \<Rightarrow> string option"

text \<open>The members of \<open>Simulation\<close>. \<open>box\<close> is the box as the factory returned it; while
  \<open>run\<close> executes, the current box is part of the loop state.\<close>

record ('ft, 'b) Simulation =
  args :: "'ft SimulationArgs"
  box :: 'b
  stepStart :: int
  simSteps :: int

datatype exit_status = EXIT_FAILURE

text \<open>What the clock and the calendar answer during one run: \<open>clock()\<close> before and after
  the loop, \<open>CLOCKS_PER_SEC\<close>, and \<open>currentDateTime()\<close>.\<close>

record timing =
  startTime :: int
  endTime :: int
  CLOCKS_PER_SEC :: int
  currentDateTime :: string

text \<open>One entry of the observation log of the loop: the loop variable, the locals of the
  iteration, the draw (when one was made), and the running energy and the box at the end of
  the iteration. The log is not a variable of the source; it records what each iteration did.\<close>

record 'b step_record =
  sr_move :: int
  sr_changeIdx :: int
  sr_oldEnergyCont :: real
  sr_newEnergyCont :: real
  sr_draw :: "real option"
  sr_accept :: bool
  sr_energy :: real
  sr_box :: 'b

text \<open>The state of \<open>run\<close>: the box and the random source, the locals \<open>oldEnergy\<close>,
  \<open>accepted\<close>, \<open>rejected\<close>, what has been written so far, and the observation log.\<close>

record ('b, 'm, 'g) run_state =
  cur_box :: 'b
  rng :: 'g
  oldEnergy :: real
  accepted :: int
  rejected :: int
  out :: "'m event list"
  steps :: "'b step_record list"

subsection \<open>The constructor (lines 33-57)\<close>

text \<open>\<open>simSteps\<close> is not initialised before its address is passed to the factory: its
  value then is the parameter \<open>simSteps0\<close>. A null box ends the process: the result is the
  diagnostic on \<open>std::cerr\<close> and the exit status.\<close>

definition Simulation_ctor ::
  "('ft, 'b, 'm, 'g) collaborators \<Rightarrow> 'ft SimulationArgs \<Rightarrow> int \<Rightarrow>
   ('m event list \<times> exit_status) + (('ft, 'b) Simulation \<times> 'g \<times> 'm event list)" where
  "Simulation_ctor C simArgs simSteps0 =
     (let (bx, stepStart1, simSteps1) =
            (if simulationMode simArgs = Parallel
             then ParallelCalcs_createBox C (filePath simArgs) (fileType simArgs) (0, simSteps0)
             else SerialCalcs_createBox C (filePath simArgs) (fileType simArgs) (0, simSteps0))
      in case bx of
           None \<Rightarrow> Inl ([Cerr [S ''Error: Unable to initialize simulation Box'', Endl]], EXIT_FAILURE)
         | Some b \<Rightarrow>
             Inr (\<lparr>args = simArgs, box = b, stepStart = stepStart1,
                    simSteps = (if stepCount simArgs > 0 then stepCount simArgs else simSteps1)\<rparr>,
                  seed C (randomseed (getEnvironment C b)),
                  [Cout [S ''Using seed: '', I (randomseed (getEnvironment C b)), Endl]]))"

subsection \<open>saveState (lines 236-252)\<close>

definition saveState ::
  "('ft, 'b, 'm, 'g) collaborators \<Rightarrow> 'b \<Rightarrow> string \<Rightarrow> int \<Rightarrow> 'm event list" where
  "saveState C b baseFileName simStep =
     (case toString C simStep of
        None \<Rightarrow> []
      | Some stepCount' \<Rightarrow>
          (let stateOutputPath = baseFileName @ ''_'' @ stepCount' @ ''.state''
           in [Cout [S ''Saving state file '', S stateOutputPath, Endl],
               OutputState (getEnvironment C b) (getMolecules C b) (getMoleculeCount C b)
                 simStep stateOutputPath]))"

subsection \<open>writePDB (lines 254-306)\<close>

definition RESULTS_FILE_DEFAULT :: string where
  "RESULTS_FILE_DEFAULT = ''run''"

definition RESULTS_FILE_EXT :: string where
  "RESULTS_FILE_EXT = ''.results''"

definition writePDB ::
  "'ft SimulationArgs \<Rightarrow> Environment \<Rightarrow> 'm \<Rightarrow> 'm event list" where
  "writePDB a sourceEnvironment sourceMoleculeCollection =
     (let pdbName = (if simulationName a = [] then RESULTS_FILE_DEFAULT else simulationName a)
                    @ ''.pdb''
      in [PDBFile pdbName sourceEnvironment sourceMoleculeCollection])"

subsection \<open>run: one iteration of the loop (lines 113-178)\<close>

text \<open>The energy queries, by mode (lines 88-95, 128-135, 139-146).\<close>

definition calcSystemEnergy ::
  "('ft, 'b, 'm, 'g) collaborators \<Rightarrow> SimulationMode \<Rightarrow> 'b \<Rightarrow> real" where
  "calcSystemEnergy C mode b =
     (if mode = Parallel then ParallelCalcs_calcSystemEnergy C b
      else SerialCalcs_calcSystemEnergy C (getMolecules C b) (getEnvironment C b))"

definition calcMolecularEnergyContribution ::
  "('ft, 'b, 'm, 'g) collaborators \<Rightarrow> SimulationMode \<Rightarrow> 'b \<Rightarrow> int \<Rightarrow> real" where
  "calcMolecularEnergyContribution C mode b changeIdx =
     (if mode = Parallel then ParallelCalcs_calcMolecularEnergyContribution C b changeIdx
      else SerialCalcs_calcMolecularEnergyContribution C (getMolecules C b) (getEnvironment C b)
             changeIdx)"

text \<open>Choosing a molecule, perturbing it, and the two energy queries around the perturbation
  (lines 126-146): the index, both contributions, and the box and the random source
  afterwards.\<close>

definition proposal ::
  "('ft, 'b, 'm, 'g) collaborators \<Rightarrow> SimulationMode \<Rightarrow> 'b \<Rightarrow> 'g \<Rightarrow>
   int \<times> real \<times> real \<times> 'b \<times> 'g" where
  "proposal C mode b g =
     (let (changeIdx, b1, g1) = chooseMolecule C (b, g);
          oldEnergyCont = calcMolecularEnergyContribution C mode b1 changeIdx;
          (b2, g2) = changeMolecule C changeIdx (b1, g1);
          newEnergyCont = calcMolecularEnergyContribution C mode b2 changeIdx
      in (changeIdx, oldEnergyCont, newEnergyCont, b2, g2))"

text \<open>Arithmetic on \<open>Real\<close>: the exact result, rounded. Negation and comparison are exact.
  A quotient can also be an infinity or NaN, when the divisor is zero (taken as \<open>+0.0\<close>, which
  is what the product of a positive constant and a temperature \<open>0.0\<close> is); \<open>exp\<close> and \<open>>=\<close> on
  such values are those of IEEE 754.\<close>

definition Real_add :: "('ft, 'b, 'm, 'g) collaborators \<Rightarrow> real \<Rightarrow> real \<Rightarrow> real" where
  "Real_add C x y = round_Real C (x + y)"

definition Real_sub :: "('ft, 'b, 'm, 'g) collaborators \<Rightarrow> real \<Rightarrow> real \<Rightarrow> real" where
  "Real_sub C x y = round_Real C (x - y)"

definition Real_mul :: "('ft, 'b, 'm, 'g) collaborators \<Rightarrow> real \<Rightarrow> real \<Rightarrow> real" where
  "Real_mul C x y = round_Real C (x * y)"

definition Real_div :: "('ft, 'b, 'm, 'g) collaborators \<Rightarrow> real \<Rightarrow> real \<Rightarrow> fp" where
  "Real_div C x y =
     (if y \<noteq> 0 then Fin (round_Real C (x / y))
      else if x = 0 then NaN
      else if 0 < x then PInf else NInf)"

definition Real_exp :: "('ft, 'b, 'm, 'g) collaborators \<Rightarrow> fp \<Rightarrow> fp" where
  "Real_exp C v =
     (case v of Fin a \<Rightarrow> Fin (round_Real C (exp a)) | PInf \<Rightarrow> PInf | NInf \<Rightarrow> Fin 0 | NaN \<Rightarrow> NaN)"

definition Real_ge :: "fp \<Rightarrow> real \<Rightarrow> bool" where
  "Real_ge v r = (case v of Fin a \<Rightarrow> a \<ge> r | PInf \<Rightarrow> True | NInf \<Rightarrow> False | NaN \<Rightarrow> False)"

text \<open>The Boltzmann factor of line 156, \<open>exp(-(newEnergyCont - oldEnergyCont) / kT)\<close>.\<close>

definition boltzmann ::
  "('ft, 'b, 'm, 'g) collaborators \<Rightarrow> real \<Rightarrow> real \<Rightarrow> real \<Rightarrow> fp" where
  "boltzmann C kT oldEnergyCont newEnergyCont =
     Real_exp C (Real_div C (- Real_sub C newEnergyCont oldEnergyCont) kT)"

text \<open>The acceptance test (lines 148-166): the flag \<open>accept\<close>, the draw if one was made,
  and the random source afterwards.\<close>

definition acceptance ::
  "('ft, 'b, 'm, 'g) collaborators \<Rightarrow> real \<Rightarrow> real \<Rightarrow> real \<Rightarrow> 'g \<Rightarrow> bool \<times> real option \<times> 'g" where
  "acceptance C kT oldEnergyCont newEnergyCont g =
     (if newEnergyCont < oldEnergyCont then (True, None, g)
      else (let x = boltzmann C kT oldEnergyCont newEnergyCont;
                (r, g') = randomReal C 0 1 g
            in (if Real_ge x r then (True, Some r, g') else (False, Some r, g'))))"

text \<open>The status line and the checkpoint at the head of the iteration (lines 113-124).
  \<open>%\<close> is the truncating remainder of C++, \<open>smod\<close>.\<close>

definition status_events :: "('ft, 'b) Simulation \<Rightarrow> int \<Rightarrow> real \<Rightarrow> 'm event list" where
  "status_events sim move energy =
     (if statusInterval (args sim) > 0 \<and>
         (move - stepStart sim) smod statusInterval (args sim) = 0
      then [Cout [S ''Step '', I move, S '':\<newline>--Current Energy: '', R energy, Endl]]
      else [])"

definition checkpoint_events ::
  "('ft, 'b, 'm, 'g) collaborators \<Rightarrow> ('ft, 'b) Simulation \<Rightarrow> string \<Rightarrow> int \<Rightarrow> 'b \<Rightarrow> 'm event list" where
  "checkpoint_events C sim baseStateFile move b =
     (if stateInterval (args sim) > 0 \<and> move > stepStart sim \<and>
         (move - stepStart sim) smod stateInterval (args sim) = 0
      then [Cout [Endl]] @ saveState C b baseStateFile move @ [Cout [Endl]]
      else [])"

text \<open>Accepting or rejecting (lines 168-178).\<close>

definition settle ::
  "('ft, 'b, 'm, 'g) collaborators \<Rightarrow> ('b, 'm, 'g) run_state \<Rightarrow> int \<Rightarrow> real \<Rightarrow> real \<Rightarrow>
   'b \<Rightarrow> 'g \<Rightarrow> bool \<Rightarrow> ('b, 'm, 'g) run_state" where
  "settle C st changeIdx oldEnergyCont newEnergyCont b g accept =
     (if accept
      then st\<lparr>cur_box := b, rng := g,
              accepted := accepted st + 1,
              oldEnergy := Real_add C (oldEnergy st) (Real_sub C newEnergyCont oldEnergyCont)\<rparr>
      else (let (b', g') = rollback C changeIdx (b, g)
            in st\<lparr>cur_box := b', rng := g', rejected := rejected st + 1\<rparr>))"

definition loop_body ::
  "('ft, 'b, 'm, 'g) collaborators \<Rightarrow> ('ft, 'b) Simulation \<Rightarrow> real \<Rightarrow> string \<Rightarrow> int \<Rightarrow>
   ('b, 'm, 'g) run_state \<Rightarrow> ('b, 'm, 'g) run_state" where
  "loop_body C sim kT baseStateFile move st =
     (let mode = simulationMode (args sim);
          st1 = st\<lparr>out := out st @ status_events sim move (oldEnergy st)
                              @ checkpoint_events C sim baseStateFile move (cur_box st)\<rparr>;
          (changeIdx, oldEnergyCont, newEnergyCont, b2, g2) =
             proposal C mode (cur_box st1) (rng st1);
          (accept, draw, g3) = acceptance C kT oldEnergyCont newEnergyCont g2;
          st2 = settle C st1 changeIdx oldEnergyCont newEnergyCont b2 g3 accept
      in st2\<lparr>steps := steps st2 @
                [\<lparr>sr_move = move, sr_changeIdx = changeIdx,
                  sr_oldEnergyCont = oldEnergyCont, sr_newEnergyCont = newEnergyCont,
                  sr_draw = draw, sr_accept = accept,
                  sr_energy = oldEnergy st2, sr_box = cur_box st2\<rparr>]\<rparr>)"

subsection \<open>run: the loop (line 111)\<close>

text \<open>The loop over mathematical step indices. The loop as the source has it, with its \<open>int\<close>
  loop variable, is \<open>loop_int\<close> below; the two agree whenever every step index fits in \<open>int\<close>
  (\<open>loop_int_in_range\<close>).\<close>

function loop ::
  "('ft, 'b, 'm, 'g) collaborators \<Rightarrow> ('ft, 'b) Simulation \<Rightarrow> real \<Rightarrow> string \<Rightarrow> int \<Rightarrow>
   ('b, 'm, 'g) run_state \<Rightarrow> ('b, 'm, 'g) run_state" where
  "loop C sim kT baseStateFile move st =
     (if move < stepStart sim + simSteps sim
      then loop C sim kT baseStateFile (move + 1) (loop_body C sim kT baseStateFile move st)
      else st)"
  by pat_completeness auto
termination
  by (relation "measure (\<lambda>(C, sim, kT, baseStateFile, move, st).
                   nat (stepStart sim + simSteps sim - move))") auto

declare loop.simps [simp del]

subsection \<open>run (lines 69-234)\<close>

definition baseStateFile_of :: "'ft SimulationArgs \<Rightarrow> string" where
  "baseStateFile_of a =
     '''' @ (if simulationName a \<noteq> [] then simulationName a else ''untitled'')"

definition resultsName_of :: "'ft SimulationArgs \<Rightarrow> string" where
  "resultsName_of a =
     (if simulationName a = [] then RESULTS_FILE_DEFAULT else simulationName a)
     @ RESULTS_FILE_EXT"

text \<open>Before the loop (lines 71-109): \<open>kT\<close>, the baseline energy, the first two lines of
  output.\<close>

definition kT_of :: "('ft, 'b, 'm, 'g) collaborators \<Rightarrow> ('ft, 'b) Simulation \<Rightarrow> real" where
  "kT_of C sim = Real_mul C (kBoltz C) (temp (getEnvironment C (box sim)))"

definition before_loop ::
  "('ft, 'b, 'm, 'g) collaborators \<Rightarrow> ('ft, 'b) Simulation \<Rightarrow> 'g \<Rightarrow> ('b, 'm, 'g) run_state" where
  "before_loop C sim g =
     (let oldEnergy0 = (0 :: real);
          oldEnergy1 = (if oldEnergy0 = 0
                        then calcSystemEnergy C (simulationMode (args sim)) (box sim)
                        else oldEnergy0)
      in \<lparr>cur_box = box sim, rng = g, oldEnergy = oldEnergy1, accepted = 0, rejected = 0,
          out = [Cout [S ''Simulation Name: '', S (simulationName (args sim)), Endl],
                 Cout [Endl, S ''Running '', I (simSteps sim), S '' steps'', Endl, Endl]],
          steps = []\<rparr>)"

text \<open>After the loop (lines 181-232).\<close>

definition final_checkpoint ::
  "('ft, 'b, 'm, 'g) collaborators \<Rightarrow> ('ft, 'b) Simulation \<Rightarrow> string \<Rightarrow> 'b \<Rightarrow> 'm event list" where
  "final_checkpoint C sim baseStateFile b =
     (if stateInterval (args sim) \<ge> 0
      then saveState C b baseStateFile (stepStart sim + simSteps sim)
      else [])"

definition results_contents ::
  "('ft, 'b, 'm, 'g) collaborators \<Rightarrow> ('ft, 'b) Simulation \<Rightarrow> timing \<Rightarrow> real \<Rightarrow>
   ('b, 'm, 'g) run_state \<Rightarrow> item list" where
  "results_contents C sim clk diffTime st =
     [S ''######### MCGPU Results File #############'', Endl,
      S ''[Information]'', Endl,
      S ''Timestamp = '', S (currentDateTime clk), Endl]
     @ (if simulationName (args sim) \<noteq> []
        then [S ''Simulation-Name = '', S (simulationName (args sim)), Endl] else [])
     @ (if simulationMode (args sim) = Parallel
        then [S ''Simulation-Mode = GPU'', Endl]
        else [S ''Simulation-Mode = CPU'', Endl])
     @ [S ''Starting-Step = '', I (stepStart sim), Endl,
        S ''Steps = '', I (simSteps sim), Endl,
        S ''Molecule-Count = '', I (numOfMolecules (getEnvironment C (cur_box st))), Endl, Endl,
        S ''[Results]'', Endl,
        S ''Final-Energy = '', R (oldEnergy st), Endl,
        S ''Run-Time = '', R diffTime, S '' seconds'', Endl,
        S ''Accepted-Moves = '', I (accepted st), Endl,
        S ''Rejected-Moves = '', I (rejected st), Endl,
        S ''Acceptance-Rate = '',
        F (fdiv (100 * of_int (accepted st)) (of_int (accepted st + rejected st))),
        S ''%'', Endl]"

definition after_loop ::
  "('ft, 'b, 'm, 'g) collaborators \<Rightarrow> ('ft, 'b) Simulation \<Rightarrow> timing \<Rightarrow> string \<Rightarrow>
   ('b, 'm, 'g) run_state \<Rightarrow> 'm event list" where
  "after_loop C sim clk baseStateFile st =
     (let diffTime = of_int (endTime clk - startTime clk) / of_int (CLOCKS_PER_SEC clk);
          currentEnergy = oldEnergy st
      in [Cout [S ''Step '', I (stepStart sim + simSteps sim),
                S ('':'' @ [CHR 0x0D] @ ''\<newline>--Current Energy: ''), R (oldEnergy st), Endl]]
         @ final_checkpoint C sim baseStateFile (cur_box st)
         @ [Cout [Endl, S ''Finished running '', I (simSteps sim), S '' steps'', Endl],
            Cout [S ''Final Energy: '', R currentEnergy, Endl],
            Cout [S ''Run Time: '', R diffTime, S '' seconds'', Endl],
            Cout [S ''Accepted Moves: '', I (accepted st), Endl],
            Cout [S ''Rejected Moves: '', I (rejected st), Endl],
            Cout [S ''Acceptance Ratio: '',
                  F (fdiv (100 * of_int (accepted st)) (of_int (accepted st + rejected st))),
                  S ''%'', Endl],
            ResultsFile (resultsName_of (args sim)) (results_contents C sim clk diffTime st)]
         @ writePDB (args sim) (getEnvironment C (cur_box st)) (getMolecules C (cur_box st)))"

definition run ::
  "('ft, 'b, 'm, 'g) collaborators \<Rightarrow> ('ft, 'b) Simulation \<Rightarrow> 'g \<Rightarrow> timing \<Rightarrow>
   ('b, 'm, 'g) run_state" where
  "run C sim g clk =
     (let baseStateFile = baseStateFile_of (args sim);
          st = loop C sim (kT_of C sim) baseStateFile (stepStart sim) (before_loop C sim g)
      in st\<lparr>out := out st @ after_loop C sim clk baseStateFile st\<rparr>)"

subsection \<open>The loop with its \<open>int\<close> loop variable (line 111)\<close>

text \<open>\<open>int move = stepStart\<close> and \<open>move++\<close> work on a 32-bit \<open>int\<close>. Incrementing \<open>INT_MAX\<close>
  is a signed overflow, which is undefined behaviour: the model stops there with
  \<open>SignedOverflow\<close>. A \<open>stepStart\<close> that \<open>int\<close> cannot hold leaves \<open>move\<close> without a defined
  initial value the model could use: \<open>OutOfRange\<close>.\<close>

datatype int_fault = SignedOverflow | OutOfRange

definition INT_MAX :: int where
  "INT_MAX = 2147483647"

definition INT_MIN :: int where
  "INT_MIN = - 2147483648"

function loop_int ::
  "('ft, 'b, 'm, 'g) collaborators \<Rightarrow> ('ft, 'b) Simulation \<Rightarrow> real \<Rightarrow> string \<Rightarrow> int \<Rightarrow>
   ('b, 'm, 'g) run_state \<Rightarrow> int_fault + ('b, 'm, 'g) run_state" where
  "loop_int C sim kT baseStateFile move st =
     (if move < stepStart sim + simSteps sim
      then (let st' = loop_body C sim kT baseStateFile move st
            in if move = INT_MAX then Inl SignedOverflow
               else loop_int C sim kT baseStateFile (move + 1) st')
      else Inr st)"
  by pat_completeness auto
termination
  by (relation "measure (\<lambda>(C, sim, kT, baseStateFile, move, st).
                   nat (stepStart sim + simSteps sim - move))") auto

declare loop_int.simps [simp del]

definition run_int ::
  "('ft, 'b, 'm, 'g) collaborators \<Rightarrow> ('ft, 'b) Simulation \<Rightarrow> 'g \<Rightarrow> timing \<Rightarrow>
   int_fault + ('b, 'm, 'g) run_state" where
  "run_int C sim g clk =
     (if stepStart sim < INT_MIN \<or> INT_MAX < stepStart sim then Inl OutOfRange
      else (let baseStateFile = baseStateFile_of (args sim)
            in case loop_int C sim (kT_of C sim) baseStateFile (stepStart sim) (before_loop C sim g) of
                 Inl fault \<Rightarrow> Inl fault
               | Inr st \<Rightarrow> Inr (st\<lparr>out := out st @ after_loop C sim clk baseStateFile st\<rparr>)))"

section \<open>Observations on a run\<close>

text \<open>Projections of the event list and of the state that the statements below talk
  about: the state files written (step and path), the names of all files written, the
  ratios streamed into one line or file, and the part of the state that does not depend on
  printing (\<open>observable\<close>: everything but the output and the loop index in the log).

  \<open>energy_contracts\<close> states what the driver assumes of its collaborators, in terms of the
  total energy of the current mode: choosing a molecule leaves the energy unchanged; a
  perturbation changes the total energy by the change of the perturbed molecule's
  contribution; rolling a perturbation back restores the energy before it.

  \<open>update_error C E e\<close> is the rounding error of line 171 in the logged iteration \<open>e\<close>, entered
  with the running energy \<open>E\<close>: that of the difference plus that of the sum when the step was
  accepted, nothing otherwise. \<open>rounding_errors C E es\<close> adds these up along a log that starts
  with the running energy \<open>E\<close>, and \<open>energy_after E es\<close> is the running energy at its end.\<close>

definition energy_contracts :: "('ft, 'b, 'm, 'g) collaborators \<Rightarrow> SimulationMode \<Rightarrow> bool" where
  "energy_contracts C mode \<longleftrightarrow>
     (\<forall>b g. calcSystemEnergy C mode (fst (snd (chooseMolecule C (b, g)))) = calcSystemEnergy C mode b) \<and>
     (\<forall>i b g. calcSystemEnergy C mode (fst (changeMolecule C i (b, g))) - calcSystemEnergy C mode b =
              calcMolecularEnergyContribution C mode (fst (changeMolecule C i (b, g))) i
              - calcMolecularEnergyContribution C mode b i) \<and>
     (\<forall>i b g g'. calcSystemEnergy C mode (fst (rollback C i (fst (changeMolecule C i (b, g)), g')))
                 = calcSystemEnergy C mode b)"

definition update_error :: "('ft, 'b, 'm, 'g) collaborators \<Rightarrow> real \<Rightarrow> 'b step_record \<Rightarrow> real" where
  "update_error C E e =
     (if sr_accept e
      then \<bar>Real_sub C (sr_newEnergyCont e) (sr_oldEnergyCont e)
              - (sr_newEnergyCont e - sr_oldEnergyCont e)\<bar>
           + \<bar>Real_add C E (Real_sub C (sr_newEnergyCont e) (sr_oldEnergyCont e))
              - (E + Real_sub C (sr_newEnergyCont e) (sr_oldEnergyCont e))\<bar>
      else 0)"

fun rounding_errors :: "('ft, 'b, 'm, 'g) collaborators \<Rightarrow> real \<Rightarrow> 'b step_record list \<Rightarrow> real" where
  "rounding_errors C E [] = 0"
| "rounding_errors C E (e # es) = update_error C E e + rounding_errors C (sr_energy e) es"

definition energy_after :: "real \<Rightarrow> 'b step_record list \<Rightarrow> real" where
  "energy_after E es = (if es = [] then E else sr_energy (last es))"

definition checkpoints :: "'m event list \<Rightarrow> (int \<times> string) list" where
  "checkpoints evs =
     concat (map (\<lambda>e. case e of OutputState env ms n step path \<Rightarrow> [(step, path)] | _ \<Rightarrow> []) evs)"

definition file_names :: "'m event list \<Rightarrow> string list" where
  "file_names evs =
     concat (map (\<lambda>e. case e of OutputState env ms n step path \<Rightarrow> [path]
                            | ResultsFile name items \<Rightarrow> [name]
                            | PDBFile name env ms \<Rightarrow> [name]
                            | _ \<Rightarrow> []) evs)"

definition ratios :: "item list \<Rightarrow> fp list" where
  "ratios items = concat (map (\<lambda>i. case i of F v \<Rightarrow> [v] | _ \<Rightarrow> []) items)"

definition observable ::
  "('b, 'm, 'g) run_state \<Rightarrow>
   'b \<times> 'g \<times> real \<times> int \<times> int \<times> (int \<times> real \<times> real \<times> real option \<times> bool \<times> real \<times> 'b) list" where
  "observable st =
     (cur_box st, rng st, oldEnergy st, accepted st, rejected st,
      map (\<lambda>e. (sr_changeIdx e, sr_oldEnergyCont e, sr_newEnergyCont e, sr_draw e, sr_accept e,
                 sr_energy e, sr_box e)) (steps st))"

section \<open>A small concrete system\<close>

text \<open>A one-molecule system on which the definitions can be evaluated. The box is a pair
  (current coordinate, saved coordinate); the energy of the system and the contribution of
  its molecule are the coordinate. The random source is a counter; every operation that
  draws from it increments it, and \<open>randomReal lo hi\<close> returns the midpoint. The perturbation
  depends on the counter: the first one lowers the energy by 1, the second raises it by 2,
  the others leave it unchanged. All its energies are small integers, which every binary
  format holds exactly, and its rounding is the identity. \<open>toString\<close> prints in decimal.
  The serial factory yields the box \<open>(0, 0)\<close>, starting step 0 and 3 steps; the parallel
  factory yields no box. \<open>demo_sim_max\<close> resumes at step \<open>2147483647\<close> for one step.\<close>

fun show_nat :: "nat \<Rightarrow> string" where
  "show_nat n = (if n < 10 then [''0123456789'' ! n]
                 else show_nat (n div 10) @ [''0123456789'' ! (n mod 10)])"

declare show_nat.simps [simp del]

definition show_int :: "int \<Rightarrow> string" where
  "show_int i = (if i < 0 then ''-'' @ show_nat (nat (- i)) else show_nat (nat i))"

definition demo_env :: Environment where
  "demo_env = \<lparr>temp = 1, randomseed = 12345, numOfMolecules = 1\<rparr>"

definition demo_delta :: "int \<Rightarrow> real" where
  "demo_delta n = (if n = 1 then - 1 else if n = 3 then 2 else 0)"

definition demo :: "(unit, real \<times> real, real, int) collaborators" where
  "demo = \<lparr>kBoltz = 1,
     round_Real = (\<lambda>x. x),
     ParallelCalcs_createBox = (\<lambda>path ft (stepStart', simSteps'). (None, stepStart', simSteps')),
     SerialCalcs_createBox = (\<lambda>path ft (stepStart', simSteps'). (Some (0, 0), 0, 3)),
     seed = (\<lambda>s. 0),
     randomReal = (\<lambda>lo hi n. ((lo + hi) / 2, n + 1)),
     getMolecules = fst,
     getEnvironment = (\<lambda>b. demo_env),
     getMoleculeCount = (\<lambda>b. 1),
     chooseMolecule = (\<lambda>(b, n). (0, b, n + 1)),
     changeMolecule = (\<lambda>i ((x, s), n). ((x + demo_delta n, x), n + 1)),
     rollback = (\<lambda>i ((x, s), n). ((s, s), n)),
     ParallelCalcs_calcSystemEnergy = fst,
     SerialCalcs_calcSystemEnergy = (\<lambda>m env. m),
     ParallelCalcs_calcMolecularEnergyContribution = (\<lambda>b i. fst b),
     SerialCalcs_calcMolecularEnergyContribution = (\<lambda>m env i. m),
     toString = (\<lambda>i. Some (show_int i))\<rparr>"

definition demo_args :: "unit SimulationArgs" where
  "demo_args = \<lparr>simulationMode = Serial, filePath = ''water.config'', fileType = (),
     simulationName = '''', stepCount = 0, statusInterval = 0, stateInterval = 2\<rparr>"

definition demo_sim :: "(unit, real \<times> real) Simulation" where
  "demo_sim = \<lparr>args = demo_args, box = (0, 0), stepStart = 0, simSteps = 3\<rparr>"

definition demo_sim0 :: "(unit, real \<times> real) Simulation" where
  "demo_sim0 = \<lparr>args = demo_args, box = (0, 0), stepStart = 0, simSteps = 0\<rparr>"

definition demo_sim2 :: "(unit, real \<times> real) Simulation" where
  "demo_sim2 = \<lparr>args = demo_args\<lparr>simulationName := ''water'', statusInterval := 1, stateInterval := - 1\<rparr>,
                box = (0, 0), stepStart = 10, simSteps = 3\<rparr>"

definition demo_sim_max :: "(unit, real \<times> real) Simulation" where
  "demo_sim_max = \<lparr>args = demo_args, box = (0, 0), stepStart = 2147483647, simSteps = 1\<rparr>"

definition demo_clk :: timing where
  "demo_clk = \<lparr>startTime = 0, endTime = 2000000, CLOCKS_PER_SEC = 1000000,
     currentDateTime = ''2014-04-21 12:00:00''\<rparr>"

definition demo_clk2 :: timing where
  "demo_clk2 = \<lparr>startTime = 5, endTime = 9000000, CLOCKS_PER_SEC = 1000000,
     currentDateTime = ''2014-04-22 08:30:00''\<rparr>"

text \<open>A second system, with the rounding of IEEE 754 double precision: \<open>round_binary p\<close>
  rounds to the nearest number with a significand of \<open>p\<close> bits, ties to the even one (the
  exponent range is not modelled). The box has two configurations, with energies \<open>1\<close> and
  \<open>- 2^-53\<close>, both of them double-precision numbers; a perturbation moves from one to the
  other, and a rollback moves back. The energy of the system is the contribution of its one
  molecule, so the contracts hold exactly.\<close>

definition round_half_even :: "real \<Rightarrow> int" where
  "round_half_even q =
     (let f = \<lfloor>q\<rfloor>
      in if q - of_int f < 1 / 2 then f
         else if 1 / 2 < q - of_int f then f + 1
         else if even f then f else f + 1)"

definition round_binary :: "nat \<Rightarrow> real \<Rightarrow> real" where
  "round_binary p x =
     (if x = 0 then 0
      else (let e = \<lfloor>log 2 \<bar>x\<bar>\<rfloor>;
                u = 2 powr (of_int e - (of_nat p - 1))
            in u * of_int (round_half_even (x / u))))"

definition drift_energy :: "bool \<Rightarrow> real" where
  "drift_energy b = (if b then - (1 / 2 ^ 53) else 1)"

definition drift :: "(unit, bool, bool, int) collaborators" where
  "drift = \<lparr>kBoltz = 1,
     round_Real = round_binary 53,
     ParallelCalcs_createBox = (\<lambda>path ft (stepStart', simSteps'). (None, stepStart', simSteps')),
     SerialCalcs_createBox = (\<lambda>path ft (stepStart', simSteps'). (Some False, 0, 1)),
     seed = (\<lambda>s. 0),
     randomReal = (\<lambda>lo hi n. ((lo + hi) / 2, n + 1)),
     getMolecules = (\<lambda>b. b),
     getEnvironment = (\<lambda>b. demo_env),
     getMoleculeCount = (\<lambda>b. 1),
     chooseMolecule = (\<lambda>(b, n). (0, b, n + 1)),
     changeMolecule = (\<lambda>i (b, n). (\<not> b, n + 1)),
     rollback = (\<lambda>i (b, n). (\<not> b, n)),
     ParallelCalcs_calcSystemEnergy = drift_energy,
     SerialCalcs_calcSystemEnergy = (\<lambda>m env. drift_energy m),
     ParallelCalcs_calcMolecularEnergyContribution = (\<lambda>b i. drift_energy b),
     SerialCalcs_calcMolecularEnergyContribution = (\<lambda>m env i. drift_energy m),
     toString = (\<lambda>i. Some (show_int i))\<rparr>"

definition drift_sim :: "(unit, bool) Simulation" where
  "drift_sim = \<lparr>args = demo_args, box = False, stepStart = 0, simSteps = 1\<rparr>"

section \<open>Auxiliary facts\<close>

lemma loop_body_eq:
  assumes "proposal C (simulationMode (args sim)) (cur_box st) (rng st) = (idx, oldC, newC, b2, g2)"
    and "acceptance C kT oldC newC g2 = (acc, d, g3)"
  shows "loop_body C sim kT base move st =
     (let st2 = settle C (st\<lparr>out := out st @ status_events sim move (oldEnergy st)
                              @ checkpoint_events C sim base move (cur_box st)\<rparr>)
                  idx oldC newC b2 g3 acc
      in st2\<lparr>steps := steps st2 @
                [\<lparr>sr_move = move, sr_changeIdx = idx,
                  sr_oldEnergyCont = oldC, sr_newEnergyCont = newC,
                  sr_draw = d, sr_accept = acc,
                  sr_energy = oldEnergy st2, sr_box = cur_box st2\<rparr>]\<rparr>)"
  using assms by (simp add: loop_body_def Let_def)

lemma settle_out [simp]: "out (settle C st i oc nc b g a) = out st"
  by (simp add: settle_def split: prod.splits)

lemma settle_steps [simp]: "steps (settle C st i oc nc b g a) = steps st"
  by (simp add: settle_def split: prod.splits)

lemma loop_body_out:
  "out (loop_body C sim kT base move st) =
     out st @ status_events sim move (oldEnergy st) @ checkpoint_events C sim base move (cur_box st)"
  by (simp add: loop_body_def Let_def split: prod.splits)

lemma loop_body_steps:
  "\<exists>e. steps (loop_body C sim kT base move st) = steps st @ [e] \<and> sr_move e = move"
  by (simp add: loop_body_def Let_def split: prod.splits)

lemma loop_rule:
  assumes "P move st"
    and "\<And>m s. move \<le> m \<Longrightarrow> m < stepStart sim + simSteps sim \<Longrightarrow> P m s
            \<Longrightarrow> P (m + 1) (loop_body C sim kT base m s)"
  shows "P (max move (stepStart sim + simSteps sim)) (loop C sim kT base move st)"
  using assms
proof (induction C sim kT base move st rule: loop.induct)
  case (1 C sim kT base move st)
  show ?case
  proof (cases "move < stepStart sim + simSteps sim")
    case True
    have step: "P (move + 1) (loop_body C sim kT base move st)"
      using "1.prems"(2)[of move st] True "1.prems"(1) by simp
    have "P (max (move + 1) (stepStart sim + simSteps sim))
            (loop C sim kT base (move + 1) (loop_body C sim kT base move st))"
      by (rule "1.IH"[OF True step]) (use "1.prems"(2) in auto)
    moreover have "max (move + 1) (stepStart sim + simSteps sim) = max move (stepStart sim + simSteps sim)"
      using True by simp
    ultimately show ?thesis
      using True by (simp add: loop.simps[of C sim kT base move st])
  next
    case False
    then show ?thesis
      using "1.prems"(1) by (simp add: loop.simps[of C sim kT base move st] max_def)
  qed
qed

lemma exp_minus_two_less_half: "exp (- 2 :: real) < 1 / 2"
proof -
  have "1 + (2::real) \<le> exp 2" by (rule exp_ge_add_one_self)
  then have "(2::real) < exp 2" by simp
  then have "1 / exp (2::real) < 1 / 2" by (simp add: field_simps)
  then show ?thesis by (simp add: exp_minus inverse_eq_divide)
qed

lemmas demo_defs = demo_def demo_args_def demo_sim_def demo_env_def demo_delta_def demo_clk_def

lemma loop_body_last:
  "steps (loop_body C sim kT base move st) = steps st @ [last (steps (loop_body C sim kT base move st))]"
  by (simp add: loop_body_def Let_def split: prod.splits)

lemma body_record_acceptance:
  "\<exists>g g'. acceptance C kT (sr_oldEnergyCont (last (steps (loop_body C sim kT base move st))))
                (sr_newEnergyCont (last (steps (loop_body C sim kT base move st)))) g
           = (sr_accept (last (steps (loop_body C sim kT base move st))),
              sr_draw (last (steps (loop_body C sim kT base move st))), g')"
  by (auto simp add: loop_body_def Let_def split: prod.splits)

lemma loop_steps_Ball:
  fixes st :: "('b, 'm, 'g) run_state"
  assumes "\<And>m s. Q (last (steps (loop_body C sim kT base m s)))"
    and "\<forall>e\<in>set (steps st). Q e"
  shows "\<forall>e\<in>set (steps (loop C sim kT base move st)). Q e"
proof -
  have "(\<lambda>m s. \<forall>e\<in>set (steps s). Q e) (max move (stepStart sim + simSteps sim))
          (loop C sim kT base move st)"
  proof (rule loop_rule)
    show "\<forall>e\<in>set (steps st). Q e" using assms(2) .
  next
    fix m and s :: "('b, 'm, 'g) run_state"
    assume "\<forall>e\<in>set (steps s). Q e"
    moreover have "steps (loop_body C sim kT base m s) = steps s @ [last (steps (loop_body C sim kT base m s))]"
      by (rule loop_body_last)
    ultimately show "\<forall>e\<in>set (steps (loop_body C sim kT base m s)). Q e"
      using assms(1)[of m s] by (metis Un_iff empty_iff empty_set insert_iff list.simps(15) set_append)
  qed
  then show ?thesis by simp
qed

lemma run_steps: "steps (run C sim g clk) =
   steps (loop C sim (kT_of C sim) (baseStateFile_of (args sim)) (stepStart sim) (before_loop C sim g))"
  by (simp add: run_def Let_def)

lemma before_loop_steps [simp]: "steps (before_loop C sim g) = []"
  by (simp add: before_loop_def)

lemma acceptance_downhill:
  "newEnergyCont < oldEnergyCont \<Longrightarrow> acceptance C kT oldEnergyCont newEnergyCont g = (True, None, g)"
  by (simp add: acceptance_def)

lemma acceptance_uphill:
  "oldEnergyCont \<le> newEnergyCont \<Longrightarrow>
   acceptance C kT oldEnergyCont newEnergyCont g =
     (Real_ge (boltzmann C kT oldEnergyCont newEnergyCont) (fst (randomReal C 0 1 g)),
      Some (fst (randomReal C 0 1 g)), snd (randomReal C 0 1 g))"
  by (simp add: acceptance_def Let_def split: prod.splits)

lemma loop_fold:
  "loop C sim kT base move st =
     fold (\<lambda>m. loop_body C sim kT base m) [move .. stepStart sim + simSteps sim - 1] st"
proof (induction C sim kT base move st rule: loop.induct)
  case (1 C sim kT base move st)
  show ?case
  proof (cases "move < stepStart sim + simSteps sim")
    case True
    have "[move .. stepStart sim + simSteps sim - 1] = move # [move + 1 .. stepStart sim + simSteps sim - 1]"
      using True by (simp add: upto_rec1)
    then show ?thesis
      using True "1.IH"[OF True] by (simp add: loop.simps[of C sim kT base move st])
  next
    case False
    then show ?thesis by (simp add: loop.simps[of C sim kT base move st])
  qed
qed

lemma loop_int_in_range:
  "stepStart sim + simSteps sim \<le> INT_MAX \<Longrightarrow>
   loop_int C sim kT base move st = Inr (loop C sim kT base move st)"
proof (induction C sim kT base move st rule: loop.induct)
  case (1 C sim kT base move st)
  show ?case
  proof (cases "move < stepStart sim + simSteps sim")
    case True
    then have "move \<noteq> INT_MAX" using "1.prems" by simp
    then show ?thesis
      using True "1.IH"[OF True "1.prems"]
      by (simp add: loop.simps[of C sim kT base move st] loop_int.simps[of C sim kT base move st] Let_def)
  next
    case False
    then show ?thesis
      by (simp add: loop.simps[of C sim kT base move st] loop_int.simps[of C sim kT base move st])
  qed
qed

lemma loop_moves:
  "map sr_move (steps (loop C sim kT base move st)) =
     map sr_move (steps st) @ [move .. stepStart sim + simSteps sim - 1]"
proof (induction C sim kT base move st rule: loop.induct)
  case (1 C sim kT base move st)
  show ?case
  proof (cases "move < stepStart sim + simSteps sim")
    case True
    obtain e where e: "steps (loop_body C sim kT base move st) = steps st @ [e]" "sr_move e = move"
      using loop_body_steps by blast
    have "[move .. stepStart sim + simSteps sim - 1] = move # [move + 1 .. stepStart sim + simSteps sim - 1]"
      using True by (simp add: upto_rec1)
    then show ?thesis
      using True "1.IH"[OF True] e by (simp add: loop.simps[of C sim kT base move st])
  next
    case False
    then show ?thesis by (simp add: loop.simps[of C sim kT base move st])
  qed
qed

lemma run_out: "out (run C sim g clk) =
   out (loop C sim (kT_of C sim) (baseStateFile_of (args sim)) (stepStart sim) (before_loop C sim g))
   @ after_loop C sim clk (baseStateFile_of (args sim))
       (loop C sim (kT_of C sim) (baseStateFile_of (args sim)) (stepStart sim) (before_loop C sim g))"
  by (simp add: run_def Let_def)

lemma proposal_energy:
  assumes "energy_contracts C mode"
    and "proposal C mode b g = (idx, oldC, newC, b2, g2)"
  shows "calcSystemEnergy C mode b2 = calcSystemEnergy C mode b + (newC - oldC)"
    and "calcSystemEnergy C mode (fst (rollback C idx (b2, g'))) = calcSystemEnergy C mode b"
proof -
  obtain i b1 g1 where ch: "chooseMolecule C (b, g) = (i, b1, g1)"
    by (cases "chooseMolecule C (b, g)") auto
  obtain b2' g2' where cm: "changeMolecule C i (b1, g1) = (b2', g2')"
    by (cases "changeMolecule C i (b1, g1)") auto
  from assms(2) ch cm have eqs: "idx = i" "b2 = b2'"
      "oldC = calcMolecularEnergyContribution C mode b1 i"
      "newC = calcMolecularEnergyContribution C mode b2' i"
    by (auto simp add: proposal_def Let_def)
  have e1: "calcSystemEnergy C mode b1 = calcSystemEnergy C mode b"
    using assms(1) ch unfolding energy_contracts_def by (metis fst_conv snd_conv)
  have e2: "calcSystemEnergy C mode b2' - calcSystemEnergy C mode b1 =
            calcMolecularEnergyContribution C mode b2' i - calcMolecularEnergyContribution C mode b1 i"
    using assms(1) cm unfolding energy_contracts_def by (metis fst_conv)
  have e3: "calcSystemEnergy C mode (fst (rollback C i (b2', g'))) = calcSystemEnergy C mode b1"
    using assms(1) cm unfolding energy_contracts_def by (metis fst_conv)
  show "calcSystemEnergy C mode b2 = calcSystemEnergy C mode b + (newC - oldC)"
    using e1 e2 eqs by simp
  show "calcSystemEnergy C mode (fst (rollback C idx (b2, g'))) = calcSystemEnergy C mode b"
    using e1 e3 eqs by simp
qed

lemma loop_body_settled:
  assumes "proposal C (simulationMode (args sim)) (cur_box st) (rng st) = (idx, oldC, newC, b2, g2)"
    and "acceptance C kT oldC newC g2 = (acc, d, g3)"
  shows "acc \<Longrightarrow> accepted (loop_body C sim kT base move st) = accepted st + 1 \<and>
                 rejected (loop_body C sim kT base move st) = rejected st \<and>
                 oldEnergy (loop_body C sim kT base move st)
                   = Real_add C (oldEnergy st) (Real_sub C newC oldC) \<and>
                 cur_box (loop_body C sim kT base move st) = b2 \<and>
                 rng (loop_body C sim kT base move st) = g3"
    and "\<not> acc \<Longrightarrow> rejected (loop_body C sim kT base move st) = rejected st + 1 \<and>
                 accepted (loop_body C sim kT base move st) = accepted st \<and>
                 oldEnergy (loop_body C sim kT base move st) = oldEnergy st \<and>
                 (cur_box (loop_body C sim kT base move st), rng (loop_body C sim kT base move st))
                   = rollback C idx (b2, g3)"
    and "sr_energy (last (steps (loop_body C sim kT base move st))) = oldEnergy (loop_body C sim kT base move st)"
    and "sr_box (last (steps (loop_body C sim kT base move st))) = cur_box (loop_body C sim kT base move st)"
    and "sr_accept (last (steps (loop_body C sim kT base move st))) = acc"
    and "sr_draw (last (steps (loop_body C sim kT base move st))) = d"
    and "sr_oldEnergyCont (last (steps (loop_body C sim kT base move st))) = oldC"
    and "sr_newEnergyCont (last (steps (loop_body C sim kT base move st))) = newC"
  using assms by (simp_all add: loop_body_def Let_def settle_def split: prod.splits)

lemma rounding_errors_snoc:
  "rounding_errors C E (es @ [e]) = rounding_errors C E es + update_error C (energy_after E es) e"
  by (induction es arbitrary: E) (simp_all add: energy_after_def)

lemma update_error_exact: "\<forall>x. round_Real C x = x \<Longrightarrow> update_error C E e = 0"
  by (simp add: update_error_def Real_add_def Real_sub_def)

lemma rounding_errors_exact: "\<forall>x. round_Real C x = x \<Longrightarrow> rounding_errors C E es = 0"
  by (induction es arbitrary: E) (simp_all add: update_error_exact)

lemma loop_body_energy_inv:
  fixes st :: "('b, 'm, 'g) run_state"
  assumes "energy_contracts C (simulationMode (args sim))"
  shows "\<bar>oldEnergy (loop_body C sim kT base move st) -
           calcSystemEnergy C (simulationMode (args sim)) (cur_box (loop_body C sim kT base move st))\<bar>
           \<le> \<bar>oldEnergy st - calcSystemEnergy C (simulationMode (args sim)) (cur_box st)\<bar>
              + update_error C (oldEnergy st) (last (steps (loop_body C sim kT base move st)))"
proof -
  obtain idx oldC newC b2 g2 where p:
    "proposal C (simulationMode (args sim)) (cur_box st) (rng st) = (idx, oldC, newC, b2, g2)"
    by (cases "proposal C (simulationMode (args sim)) (cur_box st) (rng st)") auto
  obtain acc d g3 where a: "acceptance C kT oldC newC g2 = (acc, d, g3)"
    by (cases "acceptance C kT oldC newC g2") auto
  note en = proposal_energy[OF assms(1) p]
  note rec = loop_body_settled(5,7,8)[OF p a, of base move]
  show ?thesis
  proof (cases acc)
    case True
    have s: "oldEnergy (loop_body C sim kT base move st) = Real_add C (oldEnergy st) (Real_sub C newC oldC)"
        "cur_box (loop_body C sim kT base move st) = b2"
      using loop_body_settled(1)[OF p a True, of base move] by simp_all
    have u: "update_error C (oldEnergy st) (last (steps (loop_body C sim kT base move st))) =
        \<bar>Real_sub C newC oldC - (newC - oldC)\<bar>
        + \<bar>Real_add C (oldEnergy st) (Real_sub C newC oldC) - (oldEnergy st + Real_sub C newC oldC)\<bar>"
      using True by (simp add: update_error_def rec)
    show ?thesis unfolding s en(1) u by linarith
  next
    case False
    have b: "cur_box (loop_body C sim kT base move st) = fst (rollback C idx (b2, g3))"
      using loop_body_settled(2)[OF p a False, of base move] by (metis fst_conv)
    have s: "oldEnergy (loop_body C sim kT base move st) = oldEnergy st"
      using loop_body_settled(2)[OF p a False, of base move] by simp
    have u: "update_error C (oldEnergy st) (last (steps (loop_body C sim kT base move st))) = 0"
      using False by (simp add: update_error_def rec)
    show ?thesis unfolding s b en(2)[of g3] u by simp
  qed
qed

lemma loop_body_last_energy:
  "sr_energy (last (steps (loop_body C sim kT base move st))) = oldEnergy (loop_body C sim kT base move st)"
  "sr_box (last (steps (loop_body C sim kT base move st))) = cur_box (loop_body C sim kT base move st)"
  by (simp_all add: loop_body_def Let_def split: prod.splits)

lemma loop_energy_inv:
  fixes st :: "('b, 'm, 'g) run_state"
  assumes "energy_contracts C (simulationMode (args sim))"
    and "oldEnergy st = energy_after E0 (steps st)"
    and "\<bar>oldEnergy st - calcSystemEnergy C (simulationMode (args sim)) (cur_box st)\<bar>
           \<le> rounding_errors C E0 (steps st)"
    and "\<forall>k<length (steps st).
           \<bar>sr_energy (steps st ! k) - calcSystemEnergy C (simulationMode (args sim)) (sr_box (steps st ! k))\<bar>
             \<le> rounding_errors C E0 (take (Suc k) (steps st))"
  shows "\<bar>oldEnergy (loop C sim kT base move st) -
           calcSystemEnergy C (simulationMode (args sim)) (cur_box (loop C sim kT base move st))\<bar>
           \<le> rounding_errors C E0 (steps (loop C sim kT base move st)) \<and>
         (\<forall>k<length (steps (loop C sim kT base move st)).
            \<bar>sr_energy (steps (loop C sim kT base move st) ! k) -
               calcSystemEnergy C (simulationMode (args sim)) (sr_box (steps (loop C sim kT base move st) ! k))\<bar>
              \<le> rounding_errors C E0 (take (Suc k) (steps (loop C sim kT base move st))))"
proof -
  have "(\<lambda>m s. oldEnergy s = energy_after E0 (steps s) \<and>
          \<bar>oldEnergy s - calcSystemEnergy C (simulationMode (args sim)) (cur_box s)\<bar>
             \<le> rounding_errors C E0 (steps s) \<and>
          (\<forall>k<length (steps s).
             \<bar>sr_energy (steps s ! k) - calcSystemEnergy C (simulationMode (args sim)) (sr_box (steps s ! k))\<bar>
               \<le> rounding_errors C E0 (take (Suc k) (steps s))))
        (max move (stepStart sim + simSteps sim)) (loop C sim kT base move st)"
  proof (rule loop_rule)
    show "oldEnergy st = energy_after E0 (steps st) \<and>
          \<bar>oldEnergy st - calcSystemEnergy C (simulationMode (args sim)) (cur_box st)\<bar>
             \<le> rounding_errors C E0 (steps st) \<and>
          (\<forall>k<length (steps st).
             \<bar>sr_energy (steps st ! k) - calcSystemEnergy C (simulationMode (args sim)) (sr_box (steps st ! k))\<bar>
               \<le> rounding_errors C E0 (take (Suc k) (steps st)))"
      using assms(2,3,4) by simp
  next
    fix m and s :: "('b, 'm, 'g) run_state"
    assume inv: "oldEnergy s = energy_after E0 (steps s) \<and>
          \<bar>oldEnergy s - calcSystemEnergy C (simulationMode (args sim)) (cur_box s)\<bar>
             \<le> rounding_errors C E0 (steps s) \<and>
          (\<forall>k<length (steps s).
             \<bar>sr_energy (steps s ! k) - calcSystemEnergy C (simulationMode (args sim)) (sr_box (steps s ! k))\<bar>
               \<le> rounding_errors C E0 (take (Suc k) (steps s)))"
    let ?s' = "loop_body C sim kT base m s"
    let ?e = "last (steps ?s')"
    have 3: "steps ?s' = steps s @ [?e]"
      by (rule loop_body_last)
    have re: "rounding_errors C E0 (steps ?s') = rounding_errors C E0 (steps s) + update_error C (oldEnergy s) ?e"
      using inv by (subst 3) (simp add: rounding_errors_snoc)
    have 1: "\<bar>oldEnergy ?s' - calcSystemEnergy C (simulationMode (args sim)) (cur_box ?s')\<bar>
               \<le> rounding_errors C E0 (steps ?s')"
      using loop_body_energy_inv[OF assms(1), of kT base m s] inv re by linarith
    have 0: "oldEnergy ?s' = energy_after E0 (steps ?s')"
      by (subst 3) (simp add: energy_after_def loop_body_last_energy)
    have 2: "\<forall>k<length (steps ?s').
             \<bar>sr_energy (steps ?s' ! k) - calcSystemEnergy C (simulationMode (args sim)) (sr_box (steps ?s' ! k))\<bar>
               \<le> rounding_errors C E0 (take (Suc k) (steps ?s'))"
    proof (intro allI impI)
      fix k assume k: "k < length (steps ?s')"
      show "\<bar>sr_energy (steps ?s' ! k) - calcSystemEnergy C (simulationMode (args sim)) (sr_box (steps ?s' ! k))\<bar>
               \<le> rounding_errors C E0 (take (Suc k) (steps ?s'))"
      proof (cases "k < length (steps s)")
        case True
        have "steps ?s' ! k = steps s ! k" using True by (subst 3) (simp add: nth_append)
        moreover have "take (Suc k) (steps ?s') = take (Suc k) (steps s)"
          using True by (subst 3) simp
        ultimately show ?thesis using inv True by simp
      next
        case False
        then have kl: "k = length (steps s)" using k 3 by (metis length_append_singleton less_Suc_eq)
        have n: "steps ?s' ! k = ?e" unfolding kl by (subst 3) simp
        have "length (steps ?s') = Suc (length (steps s))" by (subst 3) simp
        then have t: "take (Suc k) (steps ?s') = steps ?s'" unfolding kl by simp
        show ?thesis unfolding n t using 1 by (simp add: loop_body_last_energy)
      qed
    qed
    from 0 1 2 show "oldEnergy ?s' = energy_after E0 (steps ?s') \<and>
          \<bar>oldEnergy ?s' - calcSystemEnergy C (simulationMode (args sim)) (cur_box ?s')\<bar>
             \<le> rounding_errors C E0 (steps ?s') \<and>
          (\<forall>k<length (steps ?s').
             \<bar>sr_energy (steps ?s' ! k) - calcSystemEnergy C (simulationMode (args sim)) (sr_box (steps ?s' ! k))\<bar>
               \<le> rounding_errors C E0 (take (Suc k) (steps ?s')))"
      by simp
  qed
  then show ?thesis by blast
qed

lemma run_fields:
  "oldEnergy (run C sim g clk) = oldEnergy (loop C sim (kT_of C sim) (baseStateFile_of (args sim)) (stepStart sim) (before_loop C sim g))"
  "cur_box (run C sim g clk) = cur_box (loop C sim (kT_of C sim) (baseStateFile_of (args sim)) (stepStart sim) (before_loop C sim g))"
  "accepted (run C sim g clk) = accepted (loop C sim (kT_of C sim) (baseStateFile_of (args sim)) (stepStart sim) (before_loop C sim g))"
  "rejected (run C sim g clk) = rejected (loop C sim (kT_of C sim) (baseStateFile_of (args sim)) (stepStart sim) (before_loop C sim g))"
  "rng (run C sim g clk) = rng (loop C sim (kT_of C sim) (baseStateFile_of (args sim)) (stepStart sim) (before_loop C sim g))"
  by (simp_all add: run_def Let_def)

lemma before_loop_fields [simp]:
  "oldEnergy (before_loop C sim g) = calcSystemEnergy C (simulationMode (args sim)) (box sim)"
  "cur_box (before_loop C sim g) = box sim"
  "rng (before_loop C sim g) = g"
  "accepted (before_loop C sim g) = 0"
  "rejected (before_loop C sim g) = 0"
  by (simp_all add: before_loop_def)

lemma run_energy_bound:
  assumes "energy_contracts C (simulationMode (args sim))"
  shows "\<bar>oldEnergy (run C sim g clk) -
           calcSystemEnergy C (simulationMode (args sim)) (cur_box (run C sim g clk))\<bar>
           \<le> rounding_errors C (calcSystemEnergy C (simulationMode (args sim)) (box sim))
                (steps (run C sim g clk))"
    and "\<forall>k<length (steps (run C sim g clk)).
            \<bar>sr_energy (steps (run C sim g clk) ! k) -
               calcSystemEnergy C (simulationMode (args sim)) (sr_box (steps (run C sim g clk) ! k))\<bar>
              \<le> rounding_errors C (calcSystemEnergy C (simulationMode (args sim)) (box sim))
                   (take (Suc k) (steps (run C sim g clk)))"
proof -
  let ?l = "loop C sim (kT_of C sim) (baseStateFile_of (args sim)) (stepStart sim) (before_loop C sim g)"
  let ?E0 = "calcSystemEnergy C (simulationMode (args sim)) (box sim)"
  have "\<bar>oldEnergy ?l - calcSystemEnergy C (simulationMode (args sim)) (cur_box ?l)\<bar>
           \<le> rounding_errors C ?E0 (steps ?l) \<and>
         (\<forall>k<length (steps ?l).
            \<bar>sr_energy (steps ?l ! k) - calcSystemEnergy C (simulationMode (args sim)) (sr_box (steps ?l ! k))\<bar>
              \<le> rounding_errors C ?E0 (take (Suc k) (steps ?l)))"
    by (rule loop_energy_inv[OF assms]) (simp_all add: energy_after_def)
  then show "\<bar>oldEnergy (run C sim g clk) -
           calcSystemEnergy C (simulationMode (args sim)) (cur_box (run C sim g clk))\<bar>
           \<le> rounding_errors C ?E0 (steps (run C sim g clk))"
    and "\<forall>k<length (steps (run C sim g clk)).
            \<bar>sr_energy (steps (run C sim g clk) ! k) -
               calcSystemEnergy C (simulationMode (args sim)) (sr_box (steps (run C sim g clk) ! k))\<bar>
              \<le> rounding_errors C ?E0 (take (Suc k) (steps (run C sim g clk)))"
    by (simp_all add: run_steps run_fields)
qed

lemma checkpoints_append [simp]: "checkpoints (xs @ ys) = checkpoints xs @ checkpoints ys"
  by (simp add: checkpoints_def)

lemma file_names_append [simp]: "file_names (xs @ ys) = file_names xs @ file_names ys"
  by (simp add: file_names_def)

lemma checkpoints_simps [simp]:
  "checkpoints [] = []"
  "checkpoints (Cout xs # evs) = checkpoints evs"
  "checkpoints (Cerr xs # evs) = checkpoints evs"
  "checkpoints (OutputState env ms n step path # evs) = (step, path) # checkpoints evs"
  "checkpoints (ResultsFile name xs # evs) = checkpoints evs"
  "checkpoints (PDBFile name env ms # evs) = checkpoints evs"
  by (simp_all add: checkpoints_def)

lemma file_names_simps [simp]:
  "file_names [] = []"
  "file_names (Cout xs # evs) = file_names evs"
  "file_names (Cerr xs # evs) = file_names evs"
  "file_names (OutputState env ms n step path # evs) = path # file_names evs"
  "file_names (ResultsFile name xs # evs) = name # file_names evs"
  "file_names (PDBFile name env ms # evs) = name # file_names evs"
  by (simp_all add: file_names_def)

lemma checkpoints_status [simp]: "checkpoints (status_events sim move en) = []"
  by (simp add: status_events_def)

lemma file_names_status [simp]: "file_names (status_events sim move en) = []"
  by (simp add: status_events_def)

lemma checkpoints_saveState:
  "checkpoints (saveState C b base step) =
     (case toString C step of None \<Rightarrow> [] | Some s \<Rightarrow> [(step, base @ ''_'' @ s @ ''.state'')])"
  by (simp add: saveState_def Let_def split: option.splits)

lemma file_names_saveState:
  "file_names (saveState C b base step) =
     (case toString C step of None \<Rightarrow> [] | Some s \<Rightarrow> [base @ ''_'' @ s @ ''.state''])"
  by (simp add: saveState_def Let_def split: option.splits)

lemma smod_pos: "0 < a \<Longrightarrow> 0 < b \<Longrightarrow> (a smod b = 0) = (b dvd a)" for a b :: int
  by (simp add: smod_int_alt_def dvd_eq_mod_eq_0)

lemma checkpoints_checkpoint_events:
  "checkpoints (checkpoint_events C sim base move b) =
     (if 0 < stateInterval (args sim) \<and> 0 < move - stepStart sim \<and>
         stateInterval (args sim) dvd (move - stepStart sim)
      then (case toString C move of None \<Rightarrow> [] | Some s \<Rightarrow> [(move, base @ ''_'' @ s @ ''.state'')])
      else [])"
proof (cases "0 < stateInterval (args sim) \<and> stepStart sim < move")
  case True
  then have "((move - stepStart sim) smod stateInterval (args sim) = 0)
             = (stateInterval (args sim) dvd (move - stepStart sim))"
    by (intro smod_pos) simp_all
  then show ?thesis
    using True by (simp add: checkpoint_events_def checkpoints_saveState)
next
  case False
  then show ?thesis by (auto simp add: checkpoint_events_def)
qed

lemma loop_checkpoints:
  assumes "\<forall>m. toString C m \<noteq> None"
  shows "map fst (checkpoints (out (loop C sim kT base move st))) =
     map fst (checkpoints (out st)) @
     filter (\<lambda>m. 0 < stateInterval (args sim) \<and> 0 < m - stepStart sim \<and>
                 stateInterval (args sim) dvd (m - stepStart sim))
       [move .. stepStart sim + simSteps sim - 1]"
  using assms
proof (induction C sim kT base move st rule: loop.induct)
  case (1 C sim kT base move st)
  show ?case
  proof (cases "move < stepStart sim + simSteps sim")
    case True
    have u: "[move .. stepStart sim + simSteps sim - 1] = move # [move + 1 .. stepStart sim + simSteps sim - 1]"
      using True by (simp add: upto_rec1)
    obtain s where s: "toString C move = Some s"
      using "1.prems" by (metis not_Some_eq)
    show ?thesis
      using True "1.IH"[OF True "1.prems"] s
      by (simp add: loop.simps[of C sim kT base move st] u loop_body_out checkpoints_checkpoint_events)
  next
    case False
    then show ?thesis by (simp add: loop.simps[of C sim kT base move st])
  qed
qed

lemma before_loop_out_checkpoints [simp]: "checkpoints (out (before_loop C sim g)) = []"
  by (simp add: before_loop_def)

lemma checkpoints_after_loop:
  "checkpoints (after_loop C sim clk base st) =
     (if 0 \<le> stateInterval (args sim)
      then (case toString C (stepStart sim + simSteps sim) of None \<Rightarrow> []
            | Some s \<Rightarrow> [(stepStart sim + simSteps sim, base @ ''_'' @ s @ ''.state'')])
      else [])"
  by (simp add: after_loop_def Let_def final_checkpoint_def checkpoints_saveState writePDB_def)

lemma loop_body_counters:
  "(accepted (loop_body C sim kT base move st) = accepted st + 1 \<and>
    rejected (loop_body C sim kT base move st) = rejected st) \<or>
   (accepted (loop_body C sim kT base move st) = accepted st \<and>
    rejected (loop_body C sim kT base move st) = rejected st + 1)"
proof -
  obtain idx oldC newC b2 g2 where p:
    "proposal C (simulationMode (args sim)) (cur_box st) (rng st) = (idx, oldC, newC, b2, g2)"
    by (cases "proposal C (simulationMode (args sim)) (cur_box st) (rng st)") auto
  obtain acc d g3 where a: "acceptance C kT oldC newC g2 = (acc, d, g3)"
    by (cases "acceptance C kT oldC newC g2") auto
  show ?thesis
    using loop_body_settled(1,2)[OF p a, of base move] by (cases acc) simp_all
qed

lemma loop_counters:
  fixes st :: "('b, 'm, 'g) run_state"
  assumes "0 \<le> accepted st" "0 \<le> rejected st"
    and "accepted st + rejected st = int (length (steps st))"
  shows "0 \<le> accepted (loop C sim kT base move st) \<and> 0 \<le> rejected (loop C sim kT base move st) \<and>
         accepted (loop C sim kT base move st) + rejected (loop C sim kT base move st)
           = int (length (steps (loop C sim kT base move st)))"
proof -
  have "(\<lambda>m s. 0 \<le> accepted s \<and> 0 \<le> rejected s \<and>
                accepted s + rejected s = int (length (steps s)))
          (max move (stepStart sim + simSteps sim)) (loop C sim kT base move st)"
  proof (rule loop_rule)
    show "0 \<le> accepted st \<and> 0 \<le> rejected st \<and> accepted st + rejected st = int (length (steps st))"
      using assms by simp
  next
    fix m and s :: "('b, 'm, 'g) run_state"
    assume inv: "0 \<le> accepted s \<and> 0 \<le> rejected s \<and> accepted s + rejected s = int (length (steps s))"
    have "length (steps (loop_body C sim kT base m s)) = length (steps s) + 1"
      using loop_body_last[of C sim kT base m s] by (metis length_append_singleton Suc_eq_plus1)
    then show "0 \<le> accepted (loop_body C sim kT base m s) \<and> 0 \<le> rejected (loop_body C sim kT base m s) \<and>
         accepted (loop_body C sim kT base m s) + rejected (loop_body C sim kT base m s)
           = int (length (steps (loop_body C sim kT base m s)))"
      using inv loop_body_counters[of C sim kT base m s] by auto
  qed
  then show ?thesis by simp
qed

lemma run_counters:
  "0 \<le> accepted (run C sim g clk)" "0 \<le> rejected (run C sim g clk)"
  "accepted (run C sim g clk) + rejected (run C sim g clk) = int (nat (simSteps sim))"
proof -
  have c: "0 \<le> accepted (run C sim g clk) \<and> 0 \<le> rejected (run C sim g clk) \<and>
        accepted (run C sim g clk) + rejected (run C sim g clk) = int (length (steps (run C sim g clk)))"
    using loop_counters[of "before_loop C sim g" C sim "kT_of C sim" "baseStateFile_of (args sim)" "stepStart sim"]
    by (simp add: run_fields run_steps)
  have "length (steps (run C sim g clk)) = length (map sr_move (steps (run C sim g clk)))" by simp
  also have "\<dots> = nat (simSteps sim)" by (simp only: run_steps loop_moves) simp
  finally have l: "length (steps (run C sim g clk)) = nat (simSteps sim)" .
  show "0 \<le> accepted (run C sim g clk)" "0 \<le> rejected (run C sim g clk)"
    "accepted (run C sim g clk) + rejected (run C sim g clk) = int (nat (simSteps sim))"
    using c l by simp_all
qed

lemma run_out_ratio:
  "Cout [S ''Acceptance Ratio: '',
         F (fdiv (100 * of_int (accepted (run C sim g clk)))
                 (of_int (accepted (run C sim g clk) + rejected (run C sim g clk)))),
         S ''%'', Endl] \<in> set (out (run C sim g clk))"
  by (simp add: run_out run_fields after_loop_def Let_def)

lemma ratios_append [simp]: "ratios (xs @ ys) = ratios xs @ ratios ys"
  by (simp add: ratios_def)

lemma ratios_simps [simp]:
  "ratios [] = []"
  "ratios (S x # xs) = ratios xs"
  "ratios (I i # xs) = ratios xs"
  "ratios (R r # xs) = ratios xs"
  "ratios (F v # xs) = v # ratios xs"
  "ratios (Endl # xs) = ratios xs"
  by (simp_all add: ratios_def)

lemma ratios_results_contents:
  "ratios (results_contents C sim clk d st) =
     [fdiv (100 * of_int (accepted st)) (of_int (accepted st + rejected st))]"
  by (simp add: results_contents_def)

lemma run_out_results:
  "\<exists>items. ResultsFile (resultsName_of (args sim)) items \<in> set (out (run C sim g clk)) \<and>
     ratios items = [fdiv (100 * of_int (accepted (run C sim g clk)))
                          (of_int (accepted (run C sim g clk) + rejected (run C sim g clk)))]"
  by (rule exI[where x = "results_contents C sim clk
          (of_int (endTime clk - startTime clk) / of_int (CLOCKS_PER_SEC clk))
          (loop C sim (kT_of C sim) (baseStateFile_of (args sim)) (stepStart sim) (before_loop C sim g))"])
     (simp add: run_out run_fields after_loop_def Let_def ratios_results_contents)

lemma loop_body_observable:
  fixes s1 s2 :: "('b, 'm, 'g) run_state"
  assumes "simulationMode (args sim1) = simulationMode (args sim2)"
    and "observable s1 = observable s2"
  shows "observable (loop_body C sim1 kT base1 m1 s1) = observable (loop_body C sim2 kT base2 m2 s2)"
proof -
  from assms(2) have eqs: "cur_box s1 = cur_box s2" "rng s1 = rng s2" "oldEnergy s1 = oldEnergy s2"
      "accepted s1 = accepted s2" "rejected s1 = rejected s2"
      "map (\<lambda>e. (sr_changeIdx e, sr_oldEnergyCont e, sr_newEnergyCont e, sr_draw e, sr_accept e,
                 sr_energy e, sr_box e)) (steps s1) =
       map (\<lambda>e. (sr_changeIdx e, sr_oldEnergyCont e, sr_newEnergyCont e, sr_draw e, sr_accept e,
                 sr_energy e, sr_box e)) (steps s2)"
    by (simp_all add: observable_def)
  obtain idx oldC newC b2 g2 where p:
    "proposal C (simulationMode (args sim1)) (cur_box s1) (rng s1) = (idx, oldC, newC, b2, g2)"
    by (cases "proposal C (simulationMode (args sim1)) (cur_box s1) (rng s1)") auto
  obtain acc d g3 where a: "acceptance C kT oldC newC g2 = (acc, d, g3)"
    by (cases "acceptance C kT oldC newC g2") auto
  have p2: "proposal C (simulationMode (args sim2)) (cur_box s2) (rng s2) = (idx, oldC, newC, b2, g2)"
    using p assms(1) eqs(1,2) by simp
  obtain b3 g4 where r: "rollback C idx (b2, g3) = (b3, g4)"
    by (cases "rollback C idx (b2, g3)") auto
  show ?thesis
    unfolding loop_body_eq[OF p a] loop_body_eq[OF p2 a]
    using eqs r by (cases acc) (simp_all add: observable_def settle_def Let_def)
qed

lemma loop_observable:
  fixes s1 s2 :: "('b, 'm, 'g) run_state"
  assumes "simulationMode (args sim1) = simulationMode (args sim2)"
    and "stepStart sim1 + simSteps sim1 - m1 = stepStart sim2 + simSteps sim2 - m2"
    and "observable s1 = observable s2"
  shows "observable (loop C sim1 kT base1 m1 s1) = observable (loop C sim2 kT base2 m2 s2)"
  using assms
proof (induction C sim1 kT base1 m1 s1 arbitrary: m2 s2 rule: loop.induct)
  case (1 C sim1 kT base1 m1 s1)
  show ?case
  proof (cases "m1 < stepStart sim1 + simSteps sim1")
    case True
    then have t2: "m2 < stepStart sim2 + simSteps sim2" using "1.prems"(2) by simp
    have b: "observable (loop_body C sim1 kT base1 m1 s1) = observable (loop_body C sim2 kT base2 m2 s2)"
      by (rule loop_body_observable[OF "1.prems"(1) "1.prems"(3)])
    have "observable (loop C sim1 kT base1 (m1 + 1) (loop_body C sim1 kT base1 m1 s1)) =
          observable (loop C sim2 kT base2 (m2 + 1) (loop_body C sim2 kT base2 m2 s2))"
      by (rule "1.IH"[OF True "1.prems"(1) _ b]) (use "1.prems"(2) in simp)
    then show ?thesis
      using True t2
      by (simp add: loop.simps[of C sim1 kT base1 m1 s1] loop.simps[of C sim2 kT base2 m2 s2])
  next
    case False
    then have f2: "\<not> m2 < stepStart sim2 + simSteps sim2" using "1.prems"(2) by simp
    show ?thesis
      using False f2 "1.prems"(3)
      by (simp add: loop.simps[of C sim1 kT base1 m1 s1] loop.simps[of C sim2 kT base2 m2 s2])
  qed
qed

lemma file_names_checkpoint_events:
  "\<forall>p\<in>set (file_names (checkpoint_events C sim base move b)).
     \<exists>m s. toString C m = Some s \<and> p = base @ ''_'' @ s @ ''.state''"
  by (auto simp add: checkpoint_events_def file_names_saveState split: option.splits)

lemma loop_file_names:
  fixes st :: "('b, 'm, 'g) run_state"
  shows "\<forall>p\<in>set (file_names (out (loop C sim kT base move st))).
     p \<in> set (file_names (out st)) \<or> (\<exists>m s. toString C m = Some s \<and> p = base @ ''_'' @ s @ ''.state'')"
proof -
  have "(\<lambda>(m :: int) s. \<forall>p\<in>set (file_names (out s)).
           p \<in> set (file_names (out st)) \<or> (\<exists>m s. toString C m = Some s \<and> p = base @ ''_'' @ s @ ''.state''))
        (max move (stepStart sim + simSteps sim)) (loop C sim kT base move st)"
  proof (rule loop_rule)
    show "\<forall>p\<in>set (file_names (out st)).
           p \<in> set (file_names (out st)) \<or> (\<exists>m s. toString C m = Some s \<and> p = base @ ''_'' @ s @ ''.state'')"
      by simp
  next
    fix m and s :: "('b, 'm, 'g) run_state"
    assume inv: "\<forall>p\<in>set (file_names (out s)).
           p \<in> set (file_names (out st)) \<or> (\<exists>m s. toString C m = Some s \<and> p = base @ ''_'' @ s @ ''.state'')"
    show "\<forall>p\<in>set (file_names (out (loop_body C sim kT base m s))).
           p \<in> set (file_names (out st)) \<or> (\<exists>m s. toString C m = Some s \<and> p = base @ ''_'' @ s @ ''.state'')"
      using inv file_names_checkpoint_events[of C sim base m "cur_box s"]
      by (auto simp add: loop_body_out)
  qed
  then show ?thesis by simp
qed

lemma file_names_after_loop:
  "file_names (after_loop C sim clk base st) =
     (if 0 \<le> stateInterval (args sim)
      then (case toString C (stepStart sim + simSteps sim) of None \<Rightarrow> []
            | Some s \<Rightarrow> [base @ ''_'' @ s @ ''.state''])
      else [])
     @ [resultsName_of (args sim),
        (if simulationName (args sim) = [] then RESULTS_FILE_DEFAULT else simulationName (args sim)) @ ''.pdb'']"
  by (simp add: after_loop_def Let_def final_checkpoint_def file_names_saveState writePDB_def)

lemma before_loop_out_file_names [simp]: "file_names (out (before_loop C sim g)) = []"
  by (simp add: before_loop_def)

lemmas eval_defs = loop.simps loop_body_def proposal_def acceptance_def settle_def before_loop_def
       calcSystemEnergy_def calcMolecularEnergyContribution_def status_events_def checkpoint_events_def
       saveState_def Let_def demo_defs show_int_def show_nat.simps kT_of_def baseStateFile_of_def
       smod_int_alt_def boltzmann_def Real_add_def Real_sub_def Real_mul_def Real_div_def
       Real_exp_def Real_ge_def

lemma demo_params [simp]:
  "kT_of demo demo_sim = 1" "baseStateFile_of (args demo_sim) = ''untitled''"
  "stepStart demo_sim = 0" "simSteps demo_sim = 3"
  by (simp_all add: kT_of_def Real_mul_def baseStateFile_of_def demo_defs)

lemma demo_loop_state:
  "loop demo demo_sim 1 ''untitled'' 0 (before_loop demo demo_sim 0) =
     \<lparr>cur_box = (- 1, - 1), rng = 8, oldEnergy = - 1, accepted = 2, rejected = 1,
      out = [Cout [S ''Simulation Name: '', S [], Endl],
             Cout [Endl, S ''Running '', I 3, S '' steps'', Endl, Endl],
             Cout [Endl],
             Cout [S ''Saving state file '', S ''untitled_2.state'', Endl],
             OutputState \<lparr>temp = 1, randomseed = 12345, numOfMolecules = 1\<rparr> (- 1) 1 2 ''untitled_2.state'',
             Cout [Endl]],
      steps = [\<lparr>sr_move = 0, sr_changeIdx = 0, sr_oldEnergyCont = 0, sr_newEnergyCont = - 1,
                 sr_draw = None, sr_accept = True, sr_energy = - 1, sr_box = (- 1, 0)\<rparr>,
               \<lparr>sr_move = 1, sr_changeIdx = 0, sr_oldEnergyCont = - 1, sr_newEnergyCont = 1,
                 sr_draw = Some (1 / 2), sr_accept = False, sr_energy = - 1, sr_box = (- 1, - 1)\<rparr>,
               \<lparr>sr_move = 2, sr_changeIdx = 0, sr_oldEnergyCont = - 1, sr_newEnergyCont = - 1,
                 sr_draw = Some (1 / 2), sr_accept = True, sr_energy = - 1, sr_box = (- 1, - 1)\<rparr>]\<rparr>"
  using exp_minus_two_less_half
  by (simp add: eval_defs)

lemma demo_run_steps:
  "steps (run demo demo_sim 0 demo_clk) =
     [\<lparr>sr_move = 0, sr_changeIdx = 0, sr_oldEnergyCont = 0, sr_newEnergyCont = - 1,
        sr_draw = None, sr_accept = True, sr_energy = - 1, sr_box = (- 1, 0)\<rparr>,
      \<lparr>sr_move = 1, sr_changeIdx = 0, sr_oldEnergyCont = - 1, sr_newEnergyCont = 1,
        sr_draw = Some (1 / 2), sr_accept = False, sr_energy = - 1, sr_box = (- 1, - 1)\<rparr>,
      \<lparr>sr_move = 2, sr_changeIdx = 0, sr_oldEnergyCont = - 1, sr_newEnergyCont = - 1,
        sr_draw = Some (1 / 2), sr_accept = True, sr_energy = - 1, sr_box = (- 1, - 1)\<rparr>]"
  by (simp add: run_steps demo_loop_state)

lemma demo_contracts: "energy_contracts demo Serial"
  by (simp add: energy_contracts_def calcSystemEnergy_def calcMolecularEnergyContribution_def demo_def
        split: prod.splits)

lemma demo_mode [simp]: "simulationMode (args demo_sim) = Serial"
  by (simp add: demo_defs)

lemma demo_run_fields:
  "oldEnergy (run demo demo_sim 0 demo_clk) = - 1"
  "cur_box (run demo demo_sim 0 demo_clk) = (- 1, - 1)"
  "accepted (run demo demo_sim 0 demo_clk) = 2"
  "rejected (run demo demo_sim 0 demo_clk) = 1"
  by (simp_all add: run_fields demo_loop_state)

lemma demo0_params [simp]:
  "kT_of demo demo_sim0 = 1" "baseStateFile_of (args demo_sim0) = ''untitled''"
  "stepStart demo_sim0 = 0" "simSteps demo_sim0 = 0"
  by (simp_all add: kT_of_def Real_mul_def baseStateFile_of_def demo_defs demo_sim0_def)

lemma demo_toString: "\<forall>m. toString demo m \<noteq> None"
  by (simp add: demo_def)

lemma round_binary_zero [simp]: "round_binary p 0 = 0"
  by (simp add: round_binary_def)

lemma floor_log2_unit: "1 \<le> y \<Longrightarrow> y < 2 \<Longrightarrow> \<lfloor>log 2 y\<rfloor> = 0" for y :: real
proof -
  assume a: "1 \<le> y" "y < 2"
  have "0 \<le> log 2 y" using a by simp
  moreover have "log 2 y < 1" using a by (simp add: log_less_iff)
  ultimately show ?thesis by (simp add: floor_eq_iff)
qed

lemma powr_minus_52: "(2 :: real) powr (- 52) = 1 / 2 ^ 52"
  by (simp add: powr_minus powr_realpow[symmetric] inverse_eq_divide)

lemma round_tie: "round_binary 53 (- (1 / 2 ^ 53) - 1) = - 1"
proof -
  let ?x = "- (1 / 2 ^ 53) - 1 :: real"
  have ne: "?x \<noteq> 0" by simp
  have ab: "\<bar>?x\<bar> = 1 + 1 / 2 ^ 53" by simp
  have e: "\<lfloor>log 2 \<bar>?x\<bar>\<rfloor> = 0"
    unfolding ab by (rule floor_log2_unit) simp_all
  have u: "(2 :: real) powr (of_int 0 - (of_nat 53 - 1)) = 1 / 2 ^ 52"
    using powr_minus_52 by simp
  have q: "?x / (1 / 2 ^ 52) = - 4503599627370496 - 1 / 2" by simp
  have f: "\<lfloor>- 4503599627370496 - 1 / 2 :: real\<rfloor> = - 4503599627370497"
    by (simp add: floor_eq_iff)
  have r: "round_half_even (- 4503599627370496 - 1 / 2) = - 4503599627370496"
    unfolding round_half_even_def f Let_def by simp
  show ?thesis
    unfolding round_binary_def Let_def e u q r using ne by simp
qed

lemma drift_contracts: "energy_contracts drift Serial"
  by (simp add: energy_contracts_def calcSystemEnergy_def calcMolecularEnergyContribution_def drift_def
        split: prod.splits)

lemma drift_run:
  "oldEnergy (run drift drift_sim 0 clk) = 0"
  "cur_box (run drift drift_sim 0 clk) = True"
  "accepted (run drift drift_sim 0 clk) = 1"
proof -
  let ?s0 = "before_loop drift drift_sim 0"
  let ?kT = "kT_of drift drift_sim"
  let ?b = "baseStateFile_of (args drift_sim)"
  have l: "loop drift drift_sim ?kT ?b (stepStart drift_sim) ?s0 = loop_body drift drift_sim ?kT ?b 0 ?s0"
    by (simp add: loop_fold drift_sim_def upto.simps)
  have m: "simulationMode (args drift_sim) = Serial" by (simp add: drift_sim_def demo_args_def)
  have p: "proposal drift (simulationMode (args drift_sim)) (cur_box ?s0) (rng ?s0)
             = (0, 1, - (1 / 2 ^ 53), True, 2)"
    by (simp add: m proposal_def calcMolecularEnergyContribution_def Let_def drift_def drift_energy_def
          drift_sim_def)
  have a: "acceptance drift ?kT 1 (- (1 / 2 ^ 53)) 2 = (True, None, 2)"
    by (simp add: acceptance_def)
  have e0: "oldEnergy ?s0 = 1"
    by (simp add: m calcSystemEnergy_def drift_def drift_energy_def drift_sim_def)
  have s: "accepted (loop_body drift drift_sim ?kT ?b 0 ?s0) = accepted ?s0 + 1"
      "oldEnergy (loop_body drift drift_sim ?kT ?b 0 ?s0)
         = Real_add drift (oldEnergy ?s0) (Real_sub drift (- (1 / 2 ^ 53)) 1)"
      "cur_box (loop_body drift drift_sim ?kT ?b 0 ?s0) = True"
    using loop_body_settled(1)[OF p a, of ?b 0] by simp_all
  have r1: "Real_sub drift (- (1 / 2 ^ 53)) 1 = - 1"
    using round_tie by (simp add: Real_sub_def drift_def)
  have r2: "Real_add drift 1 (- 1) = 0"
    by (simp add: Real_add_def drift_def)
  show "oldEnergy (run drift drift_sim 0 clk) = 0"
    unfolding run_fields l s e0 r1 r2 ..
  show "cur_box (run drift drift_sim 0 clk) = True"
    unfolding run_fields l s ..
  show "accepted (run drift drift_sim 0 clk) = 1"
    unfolding run_fields l s by simp
qed

lemma run_fold:
  "run C sim g clk =
     (let st = fold (\<lambda>m. loop_body C sim (kT_of C sim) (baseStateFile_of (args sim)) m)
                 [stepStart sim .. stepStart sim + simSteps sim - 1] (before_loop C sim g)
      in st\<lparr>out := out st @ after_loop C sim clk (baseStateFile_of (args sim)) st\<rparr>)"
  by (simp add: run_def Let_def loop_fold)

lemma run_int_in_range:
  assumes "0 \<le> simSteps sim" "INT_MIN \<le> stepStart sim" "stepStart sim + simSteps sim \<le> INT_MAX"
  shows "run_int C sim g clk = Inr (run C sim g clk)"
proof -
  have "\<not> (stepStart sim < INT_MIN \<or> INT_MAX < stepStart sim)" using assms by simp
  then show ?thesis
    by (simp add: run_int_def run_def Let_def loop_int_in_range[OF assms(3)])
qed

lemma boltzmann_nonzero:
  "kT \<noteq> 0 \<Longrightarrow> boltzmann C kT oldEnergyCont newEnergyCont =
     Fin (round_Real C (exp (round_Real C (- round_Real C (newEnergyCont - oldEnergyCont) / kT))))"
  by (simp add: boltzmann_def Real_exp_def Real_div_def Real_sub_def)

lemma boltzmann_zero:
  "boltzmann C 0 oldEnergyCont newEnergyCont =
     (if round_Real C (newEnergyCont - oldEnergyCont) = 0 then NaN
      else if round_Real C (newEnergyCont - oldEnergyCont) < 0 then PInf
      else Fin 0)"
  by (simp add: boltzmann_def Real_exp_def Real_div_def Real_sub_def)

lemma demo_round: "\<forall>x. round_Real demo x = x"
  by (simp add: demo_def)

lemma demo_step1:
  "cur_box (loop_body demo demo_sim 1 ''untitled'' 0 (before_loop demo demo_sim 0)) = (- 1, 0)"
  "rng (loop_body demo demo_sim 1 ''untitled'' 0 (before_loop demo demo_sim 0)) = 2"
  "accepted (loop_body demo demo_sim 1 ''untitled'' 0 (before_loop demo demo_sim 0)) = 1"
  "rejected (loop_body demo demo_sim 1 ''untitled'' 0 (before_loop demo demo_sim 0)) = 0"
  by (simp_all add: eval_defs)

lemma demo_step2:
  "cur_box (loop_body demo demo_sim 1 ''untitled'' 1
     (loop_body demo demo_sim 1 ''untitled'' 0 (before_loop demo demo_sim 0))) = (- 1, - 1)"
  "rng (loop_body demo demo_sim 1 ''untitled'' 1
     (loop_body demo demo_sim 1 ''untitled'' 0 (before_loop demo demo_sim 0))) = 5"
  "accepted (loop_body demo demo_sim 1 ''untitled'' 1
     (loop_body demo demo_sim 1 ''untitled'' 0 (before_loop demo demo_sim 0))) = 1"
  "rejected (loop_body demo demo_sim 1 ''untitled'' 1
     (loop_body demo demo_sim 1 ''untitled'' 0 (before_loop demo demo_sim 0))) = 1"
  using exp_minus_two_less_half by (simp_all add: eval_defs)

lemma drift_run_steps:
  "steps (run drift drift_sim 0 clk) =
     [\<lparr>sr_move = 0, sr_changeIdx = 0, sr_oldEnergyCont = 1, sr_newEnergyCont = - (1 / 2 ^ 53),
        sr_draw = None, sr_accept = True, sr_energy = 0, sr_box = True\<rparr>]"
proof -
  let ?s0 = "before_loop drift drift_sim 0"
  let ?kT = "kT_of drift drift_sim"
  let ?b = "baseStateFile_of (args drift_sim)"
  have l: "loop drift drift_sim ?kT ?b (stepStart drift_sim) ?s0 = loop_body drift drift_sim ?kT ?b 0 ?s0"
    by (simp add: loop_fold drift_sim_def upto.simps)
  have m: "simulationMode (args drift_sim) = Serial" by (simp add: drift_sim_def demo_args_def)
  have p: "proposal drift (simulationMode (args drift_sim)) (cur_box ?s0) (rng ?s0)
             = (0, 1, - (1 / 2 ^ 53), True, 2)"
    by (simp add: m proposal_def calcMolecularEnergyContribution_def Let_def drift_def drift_energy_def
          drift_sim_def)
  have a: "acceptance drift ?kT 1 (- (1 / 2 ^ 53)) 2 = (True, None, 2)"
    by (simp add: acceptance_def)
  have e0: "oldEnergy ?s0 = 1"
    by (simp add: m calcSystemEnergy_def drift_def drift_energy_def drift_sim_def)
  have r1: "Real_sub drift (- (1 / 2 ^ 53)) 1 = - 1"
    using round_tie by (simp add: Real_sub_def drift_def)
  have r2: "Real_add drift 1 (- 1) = 0"
    by (simp add: Real_add_def drift_def)
  have "steps (loop_body drift drift_sim ?kT ?b 0 ?s0) =
     [\<lparr>sr_move = 0, sr_changeIdx = 0, sr_oldEnergyCont = 1, sr_newEnergyCont = - (1 / 2 ^ 53),
        sr_draw = None, sr_accept = True, sr_energy = 0, sr_box = True\<rparr>]"
    unfolding loop_body_eq[OF p a] using e0 r1 r2 by (simp add: Let_def settle_def)
  then show ?thesis by (simp add: run_steps l)
qed

lemma drift_rounding_errors:
  "rounding_errors drift 1 (steps (run drift drift_sim 0 clk)) = 1 / 2 ^ 53"
proof -
  have r1: "Real_sub drift (- (1 / 2 ^ 53)) 1 = - 1"
    using round_tie by (simp add: Real_sub_def drift_def)
  have r2: "Real_add drift 1 (- 1) = 0"
    by (simp add: Real_add_def drift_def)
  have u: "update_error drift 1
     \<lparr>sr_move = 0, sr_changeIdx = 0, sr_oldEnergyCont = 1, sr_newEnergyCont = - (1 / 2 ^ 53),
        sr_draw = None, sr_accept = True, sr_energy = 0, sr_box = True\<rparr> = 1 / 2 ^ 53"
    unfolding update_error_def step_record.simps if_True r1 r2 by simp
  show ?thesis
    unfolding drift_run_steps rounding_errors.simps u by simp
qed

section \<open>Properties of the driver\<close>

text \<open>C1. If the contribution after the perturbation is strictly less than the one before,
  the acceptance test answers \<open>True\<close> without drawing from the random source (so whatever a
  draw would have returned), and every iteration of \<open>run\<close> with
  \<open>newEnergyCont < oldEnergyCont\<close> is accepted with no draw.\<close>

theorem C1_downhill_always_accepted:
  "(newEnergyCont < oldEnergyCont \<longrightarrow>
      acceptance C kT oldEnergyCont newEnergyCont g = (True, None, g)) \<and>
   (\<forall>e \<in> set (steps (run C sim g0 clk)).
      sr_newEnergyCont e < sr_oldEnergyCont e \<longrightarrow> sr_accept e \<and> sr_draw e = None)"
proof (intro conjI impI)
  assume "newEnergyCont < oldEnergyCont"
  then show "acceptance C kT oldEnergyCont newEnergyCont g = (True, None, g)"
    by (rule acceptance_downhill)
next
  have "\<forall>e\<in>set (steps (loop C sim (kT_of C sim) (baseStateFile_of (args sim)) (stepStart sim)
                         (before_loop C sim g0))).
          sr_newEnergyCont e < sr_oldEnergyCont e \<longrightarrow> sr_accept e \<and> sr_draw e = None"
  proof (rule loop_steps_Ball)
    fix m s
    obtain g1 g2 where "acceptance C (kT_of C sim)
        (sr_oldEnergyCont (last (steps (loop_body C sim (kT_of C sim) (baseStateFile_of (args sim)) m s))))
        (sr_newEnergyCont (last (steps (loop_body C sim (kT_of C sim) (baseStateFile_of (args sim)) m s)))) g1
      = (sr_accept (last (steps (loop_body C sim (kT_of C sim) (baseStateFile_of (args sim)) m s))),
         sr_draw (last (steps (loop_body C sim (kT_of C sim) (baseStateFile_of (args sim)) m s))), g2)"
      using body_record_acceptance[of C "kT_of C sim" sim "baseStateFile_of (args sim)" m s] by blast
    then show "sr_newEnergyCont (last (steps (loop_body C sim (kT_of C sim) (baseStateFile_of (args sim)) m s)))
          < sr_oldEnergyCont (last (steps (loop_body C sim (kT_of C sim) (baseStateFile_of (args sim)) m s)))
        \<longrightarrow> sr_accept (last (steps (loop_body C sim (kT_of C sim) (baseStateFile_of (args sim)) m s)))
          \<and> sr_draw (last (steps (loop_body C sim (kT_of C sim) (baseStateFile_of (args sim)) m s))) = None"
      by (auto simp add: acceptance_downhill)
  qed simp
  then show "\<forall>e \<in> set (steps (run C sim g0 clk)).
      sr_newEnergyCont e < sr_oldEnergyCont e \<longrightarrow> sr_accept e \<and> sr_draw e = None"
    by (simp add: run_steps)
qed

text \<open>The first iteration of the small system goes downhill (0 to -1) and is accepted.\<close>

theorem C1_witness:
  "sr_newEnergyCont (steps (run demo demo_sim 0 demo_clk) ! 0)
     < sr_oldEnergyCont (steps (run demo demo_sim 0 demo_clk) ! 0) \<and>
   sr_accept (steps (run demo demo_sim 0 demo_clk) ! 0) \<and>
   sr_draw (steps (run demo demo_sim 0 demo_clk) ! 0) = None \<and>
   (- 1 :: real) < 0 \<and> acceptance demo 1 0 (- 1) 5 = (True, None, 5)"
proof -
  have m: "steps (run demo demo_sim 0 demo_clk) ! 0 \<in> set (steps (run demo demo_sim 0 demo_clk))"
    by (simp add: demo_run_steps)
  have lt: "sr_newEnergyCont (steps (run demo demo_sim 0 demo_clk) ! 0)
     < sr_oldEnergyCont (steps (run demo demo_sim 0 demo_clk) ! 0)"
    by (simp add: demo_run_steps)
  have lt': "(- 1 :: real) < 0" by simp
  show ?thesis
    using C1_downhill_always_accepted[of "- 1" 0 demo 1 5 demo_sim 0 demo_clk] m lt lt' by blast
qed

text \<open>C2. When \<open>newEnergyCont \<ge> oldEnergyCont\<close>, the acceptance test makes exactly one call
  \<open>randomReal(0.0, 1.0)\<close> on the random source it is given, answers whether the Boltzmann
  factor \<open>exp(-(newEnergyCont - oldEnergyCont) / kT)\<close>, evaluated in \<open>Real\<close> arithmetic, is at
  least the value drawn, and leaves the source as that call left it. For \<open>kT \<noteq> 0\<close> the factor
  is the rounded exponential of the rounded quotient, and if the arithmetic is exact the test
  is \<open>exp (- (newEnergyCont - oldEnergyCont) / kT) \<ge> r\<close> over the reals; for \<open>kT = 0\<close> the
  quotient is an infinity or NaN and the factor is 0, infinity or NaN. In one iteration the
  source given to the test is the shared one as the proposal left it: the draw logged, the
  decision, the counters and the source handed to the next iteration are those of that one
  draw. \<open>run\<close> is the iteration of the loop body over the step indices, from the state before
  the loop, whose source is the one \<open>run\<close> starts with, and with \<open>kT\<close> the product of \<open>kBoltz\<close>
  and the temperature of the box's environment, computed before the loop.\<close>

theorem C2_uphill_boltzmann_test:
  "(oldEnergyCont \<le> newEnergyCont \<longrightarrow>
      acceptance C kT oldEnergyCont newEnergyCont g =
        (Real_ge (boltzmann C kT oldEnergyCont newEnergyCont) (fst (randomReal C 0 1 g)),
         Some (fst (randomReal C 0 1 g)), snd (randomReal C 0 1 g))) \<and>
   (kT \<noteq> 0 \<longrightarrow>
      boltzmann C kT oldEnergyCont newEnergyCont =
        Fin (round_Real C (exp (round_Real C (- round_Real C (newEnergyCont - oldEnergyCont) / kT))))) \<and>
   (kT \<noteq> 0 \<and> (\<forall>x. round_Real C x = x) \<longrightarrow>
      (Real_ge (boltzmann C kT oldEnergyCont newEnergyCont) r \<longleftrightarrow>
         exp (- (newEnergyCont - oldEnergyCont) / kT) \<ge> r)) \<and>
   (kT = 0 \<longrightarrow>
      boltzmann C kT oldEnergyCont newEnergyCont =
        (if round_Real C (newEnergyCont - oldEnergyCont) = 0 then NaN
         else if round_Real C (newEnergyCont - oldEnergyCont) < 0 then PInf
         else Fin 0)) \<and>
   (chooseMolecule C (cur_box st, rng st) = (idx, b1, g1) \<and>
    changeMolecule C idx (b1, g1) = (b2, g2) \<and>
    oldC = calcMolecularEnergyContribution C (simulationMode (args sim)) b1 idx \<and>
    newC = calcMolecularEnergyContribution C (simulationMode (args sim)) b2 idx \<and>
    oldC \<le> newC \<longrightarrow>
      sr_draw (last (steps (loop_body C sim kT base move st))) = Some (fst (randomReal C 0 1 g2)) \<and>
      sr_accept (last (steps (loop_body C sim kT base move st)))
        = Real_ge (boltzmann C kT oldC newC) (fst (randomReal C 0 1 g2)) \<and>
      (Real_ge (boltzmann C kT oldC newC) (fst (randomReal C 0 1 g2)) \<longrightarrow>
         accepted (loop_body C sim kT base move st) = accepted st + 1 \<and>
         rejected (loop_body C sim kT base move st) = rejected st \<and>
         rng (loop_body C sim kT base move st) = snd (randomReal C 0 1 g2)) \<and>
      (\<not> Real_ge (boltzmann C kT oldC newC) (fst (randomReal C 0 1 g2)) \<longrightarrow>
         rejected (loop_body C sim kT base move st) = rejected st + 1 \<and>
         accepted (loop_body C sim kT base move st) = accepted st \<and>
         rng (loop_body C sim kT base move st)
           = snd (rollback C idx (b2, snd (randomReal C 0 1 g2))))) \<and>
   run C sim g0 clk =
     (let st' = fold (\<lambda>m. loop_body C sim
                             (round_Real C (kBoltz C * temp (getEnvironment C (box sim))))
                             (baseStateFile_of (args sim)) m)
                  [stepStart sim .. stepStart sim + simSteps sim - 1] (before_loop C sim g0)
      in st'\<lparr>out := out st' @ after_loop C sim clk (baseStateFile_of (args sim)) st'\<rparr>) \<and>
   rng (before_loop C sim g0) = g0 \<and> cur_box (before_loop C sim g0) = box sim"
proof (intro conjI impI)
  assume "oldEnergyCont \<le> newEnergyCont"
  then show "acceptance C kT oldEnergyCont newEnergyCont g =
        (Real_ge (boltzmann C kT oldEnergyCont newEnergyCont) (fst (randomReal C 0 1 g)),
         Some (fst (randomReal C 0 1 g)), snd (randomReal C 0 1 g))"
    by (rule acceptance_uphill)
next
  assume "kT \<noteq> 0"
  then show "boltzmann C kT oldEnergyCont newEnergyCont =
        Fin (round_Real C (exp (round_Real C (- round_Real C (newEnergyCont - oldEnergyCont) / kT))))"
    by (rule boltzmann_nonzero)
next
  assume "kT \<noteq> 0 \<and> (\<forall>x. round_Real C x = x)"
  then show "Real_ge (boltzmann C kT oldEnergyCont newEnergyCont) r \<longleftrightarrow>
         exp (- (newEnergyCont - oldEnergyCont) / kT) \<ge> r"
    by (simp add: boltzmann_nonzero Real_ge_def)
next
  assume "kT = 0"
  then show "boltzmann C kT oldEnergyCont newEnergyCont =
        (if round_Real C (newEnergyCont - oldEnergyCont) = 0 then NaN
         else if round_Real C (newEnergyCont - oldEnergyCont) < 0 then PInf
         else Fin 0)"
    by (simp add: boltzmann_zero)
next
  assume h: "chooseMolecule C (cur_box st, rng st) = (idx, b1, g1) \<and>
    changeMolecule C idx (b1, g1) = (b2, g2) \<and>
    oldC = calcMolecularEnergyContribution C (simulationMode (args sim)) b1 idx \<and>
    newC = calcMolecularEnergyContribution C (simulationMode (args sim)) b2 idx \<and>
    oldC \<le> newC"
  then have p: "proposal C (simulationMode (args sim)) (cur_box st) (rng st) = (idx, oldC, newC, b2, g2)"
    by (simp add: proposal_def Let_def)
  from h have a: "acceptance C kT oldC newC g2 =
        (Real_ge (boltzmann C kT oldC newC) (fst (randomReal C 0 1 g2)),
         Some (fst (randomReal C 0 1 g2)), snd (randomReal C 0 1 g2))"
    by (simp add: acceptance_uphill)
  show "sr_draw (last (steps (loop_body C sim kT base move st))) = Some (fst (randomReal C 0 1 g2))"
    using loop_body_settled(6)[OF p a, of base move] .
  show "sr_accept (last (steps (loop_body C sim kT base move st)))
        = Real_ge (boltzmann C kT oldC newC) (fst (randomReal C 0 1 g2))"
    using loop_body_settled(5)[OF p a, of base move] .
  {
    assume t: "Real_ge (boltzmann C kT oldC newC) (fst (randomReal C 0 1 g2))"
    show "accepted (loop_body C sim kT base move st) = accepted st + 1"
      "rejected (loop_body C sim kT base move st) = rejected st"
      "rng (loop_body C sim kT base move st) = snd (randomReal C 0 1 g2)"
      using loop_body_settled(1)[OF p a t, of base move] by simp_all
  }
  {
    assume f: "\<not> Real_ge (boltzmann C kT oldC newC) (fst (randomReal C 0 1 g2))"
    show "rejected (loop_body C sim kT base move st) = rejected st + 1"
      "accepted (loop_body C sim kT base move st) = accepted st"
      using loop_body_settled(2)[OF p a f, of base move] by simp_all
    show "rng (loop_body C sim kT base move st)
           = snd (rollback C idx (b2, snd (randomReal C 0 1 g2)))"
      using loop_body_settled(2)[OF p a f, of base move] by (metis snd_conv)
  }
next
  show "run C sim g0 clk =
     (let st' = fold (\<lambda>m. loop_body C sim
                             (round_Real C (kBoltz C * temp (getEnvironment C (box sim))))
                             (baseStateFile_of (args sim)) m)
                  [stepStart sim .. stepStart sim + simSteps sim - 1] (before_loop C sim g0)
      in st'\<lparr>out := out st' @ after_loop C sim clk (baseStateFile_of (args sim)) st'\<rparr>)"
    using run_fold[of C sim g0 clk] by (simp add: kT_of_def Real_mul_def)
  show "rng (before_loop C sim g0) = g0" by simp
  show "cur_box (before_loop C sim g0) = box sim" by simp
qed

text \<open>On the small system, with \<open>kT = 1\<close>: an uphill move by 2 draws 1/2 and is rejected, since
  \<open>exp (- 2) < 1/2\<close>, and a move that leaves the energy unchanged draws 1/2 and is accepted.
  With \<open>kT = 0\<close> the factor of an uphill move is 0 and that of an unchanged energy is NaN; both
  moves are rejected. The second and third iteration draw from the source as the proposal
  left it (4 and 7) and hand on 5 and 8.\<close>

theorem C2_witness:
  "(0 :: real) \<le> 2 \<and> acceptance demo 1 0 2 4 = (False, Some (1 / 2), 5) \<and>
   (1 :: real) \<noteq> 0 \<and> (\<forall>x. round_Real demo x = x) \<and>
   boltzmann demo 1 0 2 = Fin (exp (- 2)) \<and>
   (Real_ge (boltzmann demo 1 0 2) (1 / 2) \<longleftrightarrow> exp (- (2 - 0) / 1) \<ge> (1 / 2 :: real)) \<and>
   boltzmann demo 0 0 2 = Fin 0 \<and> acceptance demo 0 0 2 4 = (False, Some (1 / 2), 5) \<and>
   boltzmann demo 0 1 1 = NaN \<and> acceptance demo 0 1 1 4 = (False, Some (1 / 2), 5) \<and>
   chooseMolecule demo ((- 1, 0), 2) = (0, (- 1, 0), 3) \<and>
   changeMolecule demo 0 ((- 1, 0), 3) = ((1, - 1), 4) \<and>
   calcMolecularEnergyContribution demo (simulationMode (args demo_sim)) (- 1, 0) 0 = - 1 \<and>
   calcMolecularEnergyContribution demo (simulationMode (args demo_sim)) (1, - 1) 0 = 1 \<and>
   (- 1 :: real) \<le> 1 \<and>
   \<not> Real_ge (boltzmann demo 1 (- 1) 1) (fst (randomReal demo 0 1 4)) \<and>
   sr_draw (last (steps (loop_body demo demo_sim 1 ''untitled'' 1
     (loop_body demo demo_sim 1 ''untitled'' 0 (before_loop demo demo_sim 0))))) = Some (1 / 2) \<and>
   \<not> sr_accept (last (steps (loop_body demo demo_sim 1 ''untitled'' 1
     (loop_body demo demo_sim 1 ''untitled'' 0 (before_loop demo demo_sim 0))))) \<and>
   rejected (loop_body demo demo_sim 1 ''untitled'' 1
     (loop_body demo demo_sim 1 ''untitled'' 0 (before_loop demo demo_sim 0))) = 1 \<and>
   rng (loop_body demo demo_sim 1 ''untitled'' 1
     (loop_body demo demo_sim 1 ''untitled'' 0 (before_loop demo demo_sim 0))) = 5 \<and>
   chooseMolecule demo ((- 1, - 1), 5) = (0, (- 1, - 1), 6) \<and>
   changeMolecule demo 0 ((- 1, - 1), 6) = ((- 1, - 1), 7) \<and>
   calcMolecularEnergyContribution demo (simulationMode (args demo_sim)) (- 1, - 1) 0 = - 1 \<and>
   (- 1 :: real) \<le> - 1 \<and>
   Real_ge (boltzmann demo 1 (- 1) (- 1)) (fst (randomReal demo 0 1 7)) \<and>
   accepted (loop_body demo demo_sim 1 ''untitled'' 2
     (loop_body demo demo_sim 1 ''untitled'' 1
       (loop_body demo demo_sim 1 ''untitled'' 0 (before_loop demo demo_sim 0)))) = 2 \<and>
   rng (loop_body demo demo_sim 1 ''untitled'' 2
     (loop_body demo demo_sim 1 ''untitled'' 1
       (loop_body demo demo_sim 1 ''untitled'' 0 (before_loop demo demo_sim 0)))) = 8 \<and>
   rng (run demo demo_sim 0 demo_clk) = 8"
proof -
  let ?s1 = "loop_body demo demo_sim 1 ''untitled'' 0 (before_loop demo demo_sim 0)"
  let ?s2 = "loop_body demo demo_sim 1 ''untitled'' 1 ?s1"
  let ?s3 = "loop_body demo demo_sim 1 ''untitled'' 2 ?s2"
  have rr: "fst (randomReal demo 0 1 4) = 1 / 2" "snd (randomReal demo 0 1 4) = 5"
      "fst (randomReal demo 0 1 7) = 1 / 2" "snd (randomReal demo 0 1 7) = 8"
    by (simp_all add: demo_def)
  note tA = C2_uphill_boltzmann_test[where C = demo and kT = 1 and oldEnergyCont = 0
      and newEnergyCont = 2 and g = 4 and r = "1 / 2" and sim = demo_sim and st = ?s1 and idx = 0
      and oldC = "- 1" and newC = 1 and ?b1.0 = "(- 1, 0)" and ?g1.0 = 3 and ?b2.0 = "(1, - 1)" and ?g2.0 = 4 and base = "''untitled''"
      and move = 1 and ?g0.0 = 0 and clk = demo_clk]
  note tB = C2_uphill_boltzmann_test[where C = demo and kT = 1 and oldEnergyCont = 0
      and newEnergyCont = 2 and g = 4 and r = "1 / 2" and sim = demo_sim and st = ?s2 and idx = 0
      and oldC = "- 1" and newC = "- 1" and ?b1.0 = "(- 1, - 1)" and ?g1.0 = 6 and ?b2.0 = "(- 1, - 1)" and ?g2.0 = 7 and base = "''untitled''"
      and move = 2 and ?g0.0 = 0 and clk = demo_clk]
  note tZ = C2_uphill_boltzmann_test[where C = demo and kT = 0 and oldEnergyCont = 0
      and newEnergyCont = 2 and g = 4 and r = "1 / 2" and sim = demo_sim and st = ?s1 and idx = 0
      and oldC = "- 1" and newC = 1 and ?b1.0 = "(- 1, 0)" and ?g1.0 = 3 and ?b2.0 = "(1, - 1)" and ?g2.0 = 4 and base = "''untitled''"
      and move = 1 and ?g0.0 = 0 and clk = demo_clk]
  note tN = C2_uphill_boltzmann_test[where C = demo and kT = 0 and oldEnergyCont = 1
      and newEnergyCont = 1 and g = 4 and r = "1 / 2" and sim = demo_sim and st = ?s1 and idx = 0
      and oldC = "- 1" and newC = 1 and ?b1.0 = "(- 1, 0)" and ?g1.0 = 3 and ?b2.0 = "(1, - 1)" and ?g2.0 = 4 and base = "''untitled''"
      and move = 1 and ?g0.0 = 0 and clk = demo_clk]
  have le: "(0 :: real) \<le> 2" "(1 :: real) \<noteq> 0" "(- 1 :: real) \<le> 1" "(- 1 :: real) \<le> - 1"
    by simp_all
  have b1: "boltzmann demo 1 0 2 = Fin (exp (- 2))"
    using tA le(2) by (simp add: demo_def)
  have iff1: "Real_ge (boltzmann demo 1 0 2) (1 / 2) \<longleftrightarrow> exp (- (2 - 0) / 1) \<ge> (1 / 2 :: real)"
    using tA le(2) demo_round by blast
  have ng: "\<not> Real_ge (Fin (exp (- 2))) (1 / 2)"
    using exp_minus_two_less_half by (simp add: Real_ge_def)
  have a1: "acceptance demo 1 0 2 4 = (False, Some (1 / 2), 5)"
    using tA le(1) b1 ng rr by simp
  have bz: "boltzmann demo 0 0 2 = Fin 0"
    using tZ by (simp add: demo_def)
  have az: "acceptance demo 0 0 2 4 = (False, Some (1 / 2), 5)"
    using tZ le(1) bz rr by (simp add: Real_ge_def)
  have bn: "boltzmann demo 0 1 1 = NaN"
    using tN by (simp add: demo_def)
  have an: "acceptance demo 0 1 1 4 = (False, Some (1 / 2), 5)"
    using tN bn rr by (simp add: Real_ge_def)
  have c1: "chooseMolecule demo (cur_box ?s1, rng ?s1) = (0, (- 1, 0), 3)"
      "changeMolecule demo 0 ((- 1, 0), 3) = ((1, - 1), 4)"
      "- 1 = calcMolecularEnergyContribution demo (simulationMode (args demo_sim)) (- 1, 0) 0"
      "1 = calcMolecularEnergyContribution demo (simulationMode (args demo_sim)) (1, - 1) 0"
    unfolding demo_step1 by (simp_all add: calcMolecularEnergyContribution_def demo_defs)
  have b2: "boltzmann demo 1 (- 1) 1 = Fin (exp (- 2))"
    by (simp add: boltzmann_nonzero demo_def)
  have n2: "\<not> Real_ge (boltzmann demo 1 (- 1) 1) (fst (randomReal demo 0 1 4))"
    unfolding b2 rr by (rule ng)
  have rb: "snd (rollback demo 0 ((1, - 1), snd (randomReal demo 0 1 4))) = 5"
    by (simp add: demo_def)
  from tA c1 le(3) n2 have s2: "sr_draw (last (steps ?s2)) = Some (fst (randomReal demo 0 1 4))"
      "\<not> sr_accept (last (steps ?s2))"
      "rejected ?s2 = rejected ?s1 + 1"
      "rng ?s2 = snd (rollback demo 0 ((1, - 1), snd (randomReal demo 0 1 4)))"
    by simp_all
  have c2: "chooseMolecule demo (cur_box ?s2, rng ?s2) = (0, (- 1, - 1), 6)"
      "changeMolecule demo 0 ((- 1, - 1), 6) = ((- 1, - 1), 7)"
      "- 1 = calcMolecularEnergyContribution demo (simulationMode (args demo_sim)) (- 1, - 1) 0"
    unfolding demo_step2 by (simp_all add: calcMolecularEnergyContribution_def demo_defs)
  have y3: "Real_ge (boltzmann demo 1 (- 1) (- 1)) (fst (randomReal demo 0 1 7))"
    unfolding rr by (simp add: boltzmann_nonzero Real_ge_def demo_def)
  from tB c2 le(4) y3 have s3: "accepted ?s3 = accepted ?s2 + 1" "rng ?s3 = snd (randomReal demo 0 1 7)"
    by simp_all
  have rn: "rng (run demo demo_sim 0 demo_clk) = 8"
    by (simp add: run_fields demo_loop_state)
  have c1': "chooseMolecule demo ((- 1, 0), 2) = (0, (- 1, 0), 3)"
      "calcMolecularEnergyContribution demo (simulationMode (args demo_sim)) (- 1, 0) 0 = - 1"
      "calcMolecularEnergyContribution demo (simulationMode (args demo_sim)) (1, - 1) 0 = 1"
    using c1 unfolding demo_step1 by simp_all
  have c2': "chooseMolecule demo ((- 1, - 1), 5) = (0, (- 1, - 1), 6)"
      "calcMolecularEnergyContribution demo (simulationMode (args demo_sim)) (- 1, - 1) 0 = - 1"
    using c2 unfolding demo_step2 by simp_all
  have d2: "sr_draw (last (steps ?s2)) = Some (1 / 2)" using s2(1) rr by simp
  have r2: "rejected ?s2 = 1" using s2(3) demo_step1 by simp
  have g2: "rng ?s2 = 5" using s2(4) rb by simp
  have a3: "accepted ?s3 = 2" using s3(1) demo_step2 by simp
  have g3: "rng ?s3 = 8" using s3(2) rr by simp
  note facts = le demo_round b1 iff1 a1 bz az bn an c1' c1(2) c2' c2(2) n2 d2 s2(2) r2 g2 y3 a3 g3 rn
  show ?thesis
    by (intro conjI) (rule facts)+
qed

text \<open>C3, as the code has it. One iteration, for the index, the contributions and the
  perturbed box that the proposal yields and for the answer of the acceptance test: when
  accepted, \<open>accepted\<close> grows by one, \<open>rejected\<close> is unchanged, \<open>oldEnergy\<close> becomes the rounded
  sum of \<open>oldEnergy\<close> and the rounded difference \<open>newEnergyCont - oldEnergyCont\<close>, and the
  perturbed box is kept; when rejected, \<open>rejected\<close> grows by one, \<open>accepted\<close> and \<open>oldEnergy\<close>
  are unchanged, and the box and the random source handed to the next iteration are those
  returned by \<open>rollback\<close> for the perturbed index. If the collaborators meet
  \<open>energy_contracts\<close>, then before the loop \<open>oldEnergy\<close> is the total energy of the box, and
  at the end of every iteration and of \<open>run\<close> it differs from the total energy of the box by
  at most the sum of the rounding errors that line 171 has made so far. If the arithmetic is
  exact the two are equal.\<close>

theorem C3_bookkeeping:
  "(proposal C (simulationMode (args sim)) (cur_box st) (rng st) = (idx, oldC, newC, b2, g2) \<and>
    acceptance C kT oldC newC g2 = (acc, d, g3) \<longrightarrow>
      (acc \<longrightarrow> accepted (loop_body C sim kT base move st) = accepted st + 1 \<and>
               rejected (loop_body C sim kT base move st) = rejected st \<and>
               oldEnergy (loop_body C sim kT base move st)
                 = round_Real C (oldEnergy st + round_Real C (newC - oldC)) \<and>
               cur_box (loop_body C sim kT base move st) = b2 \<and>
               rng (loop_body C sim kT base move st) = g3) \<and>
      (\<not> acc \<longrightarrow> rejected (loop_body C sim kT base move st) = rejected st + 1 \<and>
               accepted (loop_body C sim kT base move st) = accepted st \<and>
               oldEnergy (loop_body C sim kT base move st) = oldEnergy st \<and>
               (cur_box (loop_body C sim kT base move st), rng (loop_body C sim kT base move st))
                 = rollback C idx (b2, g3))) \<and>
   (energy_contracts C (simulationMode (args sim)) \<longrightarrow>
      oldEnergy (before_loop C sim g) = calcSystemEnergy C (simulationMode (args sim)) (box sim) \<and>
      (\<forall>k<length (steps (run C sim g clk)).
         \<bar>sr_energy (steps (run C sim g clk) ! k) -
            calcSystemEnergy C (simulationMode (args sim)) (sr_box (steps (run C sim g clk) ! k))\<bar>
           \<le> rounding_errors C (calcSystemEnergy C (simulationMode (args sim)) (box sim))
                (take (Suc k) (steps (run C sim g clk)))) \<and>
      \<bar>oldEnergy (run C sim g clk) -
         calcSystemEnergy C (simulationMode (args sim)) (cur_box (run C sim g clk))\<bar>
        \<le> rounding_errors C (calcSystemEnergy C (simulationMode (args sim)) (box sim))
             (steps (run C sim g clk))) \<and>
   (energy_contracts C (simulationMode (args sim)) \<and> (\<forall>x. round_Real C x = x) \<longrightarrow>
      (\<forall>e\<in>set (steps (run C sim g clk)).
         sr_energy e = calcSystemEnergy C (simulationMode (args sim)) (sr_box e)) \<and>
      oldEnergy (run C sim g clk) =
        calcSystemEnergy C (simulationMode (args sim)) (cur_box (run C sim g clk)))"
proof (intro conjI impI)
  assume h: "proposal C (simulationMode (args sim)) (cur_box st) (rng st) = (idx, oldC, newC, b2, g2) \<and>
    acceptance C kT oldC newC g2 = (acc, d, g3)"
  {
    assume acc
    then show "accepted (loop_body C sim kT base move st) = accepted st + 1"
      "rejected (loop_body C sim kT base move st) = rejected st"
      "oldEnergy (loop_body C sim kT base move st)
         = round_Real C (oldEnergy st + round_Real C (newC - oldC))"
      "cur_box (loop_body C sim kT base move st) = b2"
      "rng (loop_body C sim kT base move st) = g3"
      using loop_body_settled(1)[of C sim st idx oldC newC b2 g2 kT acc d g3 base move] h
      by (simp_all add: Real_add_def Real_sub_def)
  }
  {
    assume "\<not> acc"
    then show "rejected (loop_body C sim kT base move st) = rejected st + 1"
      "accepted (loop_body C sim kT base move st) = accepted st"
      "oldEnergy (loop_body C sim kT base move st) = oldEnergy st"
      "(cur_box (loop_body C sim kT base move st), rng (loop_body C sim kT base move st))
                 = rollback C idx (b2, g3)"
      using loop_body_settled(2)[of C sim st idx oldC newC b2 g2 kT acc d g3 base move] h by simp_all
  }
next
  assume c: "energy_contracts C (simulationMode (args sim))"
  show "oldEnergy (before_loop C sim g) = calcSystemEnergy C (simulationMode (args sim)) (box sim)"
    by simp
  show "\<forall>k<length (steps (run C sim g clk)).
         \<bar>sr_energy (steps (run C sim g clk) ! k) -
            calcSystemEnergy C (simulationMode (args sim)) (sr_box (steps (run C sim g clk) ! k))\<bar>
           \<le> rounding_errors C (calcSystemEnergy C (simulationMode (args sim)) (box sim))
                (take (Suc k) (steps (run C sim g clk)))"
    by (rule run_energy_bound(2)[OF c])
  show "\<bar>oldEnergy (run C sim g clk) -
         calcSystemEnergy C (simulationMode (args sim)) (cur_box (run C sim g clk))\<bar>
        \<le> rounding_errors C (calcSystemEnergy C (simulationMode (args sim)) (box sim))
             (steps (run C sim g clk))"
    by (rule run_energy_bound(1)[OF c])
next
  assume c: "energy_contracts C (simulationMode (args sim)) \<and> (\<forall>x. round_Real C x = x)"
  then have c1: "energy_contracts C (simulationMode (args sim))" and ex: "\<forall>x. round_Real C x = x"
    by simp_all
  show "\<forall>e\<in>set (steps (run C sim g clk)).
         sr_energy e = calcSystemEnergy C (simulationMode (args sim)) (sr_box e)"
  proof
    fix e assume "e \<in> set (steps (run C sim g clk))"
    then obtain k where k: "k < length (steps (run C sim g clk))" "steps (run C sim g clk) ! k = e"
      by (auto simp add: in_set_conv_nth)
    show "sr_energy e = calcSystemEnergy C (simulationMode (args sim)) (sr_box e)"
      using run_energy_bound(2)[OF c1, of g clk] k by (auto simp add: rounding_errors_exact[OF ex])
  qed
  show "oldEnergy (run C sim g clk) =
        calcSystemEnergy C (simulationMode (args sim)) (cur_box (run C sim g clk))"
    using run_energy_bound(1)[OF c1, of g clk] by (simp add: rounding_errors_exact[OF ex])
qed

text \<open>C3 as stated fails: the contracts of the second system hold exactly, and after one
  accepted step in double precision the tracked energy is \<open>0\<close> while the energy of the box is
  \<open>- 2^-53\<close>. The difference of the contributions, \<open>- 2^-53 - 1\<close>, is not a double-precision
  number and is rounded to \<open>- 1\<close>.\<close>

theorem C3_counterexample:
  "energy_contracts drift (simulationMode (args drift_sim)) \<and>
   round_Real drift (- (1 / 2 ^ 53) - 1) = - 1 \<and>
   oldEnergy (run drift drift_sim 0 demo_clk) = 0 \<and>
   calcSystemEnergy drift (simulationMode (args drift_sim)) (cur_box (run drift drift_sim 0 demo_clk))
     = - (1 / 2 ^ 53) \<and>
   oldEnergy (run drift drift_sim 0 demo_clk) \<noteq>
     calcSystemEnergy drift (simulationMode (args drift_sim)) (cur_box (run drift drift_sim 0 demo_clk))"
proof -
  have m: "simulationMode (args drift_sim) = Serial" by (simp add: drift_sim_def demo_args_def)
  have r: "round_Real drift (- (1 / 2 ^ 53) - 1) = - 1"
    using round_tie by (simp add: drift_def)
  have c: "calcSystemEnergy drift Serial True = - (1 / 2 ^ 53)"
    by (simp add: calcSystemEnergy_def drift_def drift_energy_def)
  show ?thesis
    using drift_contracts r c by (simp add: m drift_run)
qed

text \<open>On the small system, whose arithmetic is exact: the first iteration is accepted, the
  second is rejected and rolled back, the contracts hold, and the running energy is the
  energy of the box throughout. On the second system, in double precision: the one rounding
  error is \<open>2^-53\<close>, and the running energy is within \<open>2^-53\<close> of the energy of the box.\<close>

theorem C3_witness:
  "proposal demo (simulationMode (args demo_sim)) (0, 0) 0 = (0, 0, - 1, (- 1, 0), 2) \<and>
   acceptance demo 1 0 (- 1) 2 = (True, None, 2) \<and>
   accepted (loop_body demo demo_sim 1 ''untitled'' 0 (before_loop demo demo_sim 0)) = 1 \<and>
   rejected (loop_body demo demo_sim 1 ''untitled'' 0 (before_loop demo demo_sim 0)) = 0 \<and>
   oldEnergy (loop_body demo demo_sim 1 ''untitled'' 0 (before_loop demo demo_sim 0)) = - 1 \<and>
   proposal demo (simulationMode (args demo_sim)) (- 1, 0) 2 = (0, - 1, 1, (1, - 1), 4) \<and>
   acceptance demo 1 (- 1) 1 4 = (False, Some (1 / 2), 5) \<and>
   rejected (loop_body demo demo_sim 1 ''untitled'' 1
              (loop_body demo demo_sim 1 ''untitled'' 0 (before_loop demo demo_sim 0))) = 1 \<and>
   oldEnergy (loop_body demo demo_sim 1 ''untitled'' 1
              (loop_body demo demo_sim 1 ''untitled'' 0 (before_loop demo demo_sim 0))) = - 1 \<and>
   cur_box (loop_body demo demo_sim 1 ''untitled'' 1
              (loop_body demo demo_sim 1 ''untitled'' 0 (before_loop demo demo_sim 0))) = (- 1, - 1) \<and>
   energy_contracts demo (simulationMode (args demo_sim)) \<and>
   (\<forall>x. round_Real demo x = x) \<and>
   map sr_energy (steps (run demo demo_sim 0 demo_clk)) =
     map (\<lambda>e. calcSystemEnergy demo Serial (sr_box e)) (steps (run demo demo_sim 0 demo_clk)) \<and>
   oldEnergy (run demo demo_sim 0 demo_clk) = calcSystemEnergy demo Serial (- 1, - 1) \<and>
   energy_contracts drift (simulationMode (args drift_sim)) \<and>
   rounding_errors drift (calcSystemEnergy drift (simulationMode (args drift_sim)) (box drift_sim))
     (steps (run drift drift_sim 0 demo_clk)) = 1 / 2 ^ 53 \<and>
   \<bar>oldEnergy (run drift drift_sim 0 demo_clk) -
      calcSystemEnergy drift (simulationMode (args drift_sim)) (cur_box (run drift drift_sim 0 demo_clk))\<bar>
     \<le> 1 / 2 ^ 53"
proof -
  let ?s0 = "before_loop demo demo_sim 0"
  let ?s1 = "loop_body demo demo_sim 1 ''untitled'' 0 ?s0"
  let ?s2 = "loop_body demo demo_sim 1 ''untitled'' 1 ?s1"
  have bx: "box demo_sim = (0, 0)" by (simp add: demo_sim_def)
  have p0: "proposal demo (simulationMode (args demo_sim)) (cur_box ?s0) (rng ?s0) = (0, 0, - 1, (- 1, 0), 2)"
    by (simp add: proposal_def calcMolecularEnergyContribution_def Let_def demo_defs)
  have a0: "acceptance demo 1 0 (- 1) 2 = (True, None, 2)"
    by (simp add: acceptance_def)
  note t0 = C3_bookkeeping[where C = demo and sim = demo_sim and st = ?s0 and idx = 0 and oldC = 0
      and newC = "- 1" and ?b2.0 = "(- 1, 0)" and ?g2.0 = 2 and kT = 1 and acc = True and d = None
      and ?g3.0 = 2 and base = "''untitled''" and move = 0 and g = 0 and clk = demo_clk]
  have e0: "oldEnergy ?s0 = 0" by (simp add: calcSystemEnergy_def demo_defs)
  from t0 p0 a0 have r0: "accepted ?s1 = accepted ?s0 + 1" "rejected ?s1 = rejected ?s0"
      "oldEnergy ?s1 = round_Real demo (oldEnergy ?s0 + round_Real demo (- 1 - 0))"
      "cur_box ?s1 = (- 1, 0)" "rng ?s1 = 2"
    by simp_all
  have f1: "accepted ?s1 = 1" "rejected ?s1 = 0" "oldEnergy ?s1 = - 1"
    using r0 e0 demo_round by simp_all
  have p1: "proposal demo (simulationMode (args demo_sim)) (cur_box ?s1) (rng ?s1) = (0, - 1, 1, (1, - 1), 4)"
    unfolding r0 by (simp add: proposal_def calcMolecularEnergyContribution_def Let_def demo_defs)
  have a1: "acceptance demo 1 (- 1) 1 4 = (False, Some (1 / 2), 5)"
    using exp_minus_two_less_half
    by (simp add: acceptance_def boltzmann_def Real_sub_def Real_div_def Real_exp_def Real_ge_def
          Let_def demo_def)
  note t1 = C3_bookkeeping[where C = demo and sim = demo_sim and st = ?s1 and idx = 0 and oldC = "- 1"
      and newC = 1 and ?b2.0 = "(1, - 1)" and ?g2.0 = 4 and kT = 1 and acc = False and d = "Some (1 / 2)"
      and ?g3.0 = 5 and base = "''untitled''" and move = 1 and g = 0 and clk = demo_clk]
  from t1 p1 a1 have r1: "rejected ?s2 = rejected ?s1 + 1" "oldEnergy ?s2 = oldEnergy ?s1"
      "(cur_box ?s2, rng ?s2) = rollback demo 0 ((1, - 1), 5)"
    by simp_all
  have rb: "rollback demo 0 ((1, - 1), 5) = ((- 1, - 1), 5)" by (simp add: demo_def)
  have f2: "rejected ?s2 = 1" "oldEnergy ?s2 = - 1" "cur_box ?s2 = (- 1, - 1)"
    using r1 f1 rb by simp_all
  have c: "energy_contracts demo (simulationMode (args demo_sim))"
    using demo_contracts by simp
  from t0 c demo_round have inv: "\<forall>e\<in>set (steps (run demo demo_sim 0 demo_clk)).
         sr_energy e = calcSystemEnergy demo (simulationMode (args demo_sim)) (sr_box e)"
      "oldEnergy (run demo demo_sim 0 demo_clk) =
        calcSystemEnergy demo (simulationMode (args demo_sim)) (cur_box (run demo demo_sim 0 demo_clk))"
    by blast+
  have m1: "map sr_energy (steps (run demo demo_sim 0 demo_clk)) =
     map (\<lambda>e. calcSystemEnergy demo Serial (sr_box e)) (steps (run demo demo_sim 0 demo_clk))"
    using inv(1) by (simp cong: map_cong)
  have m2: "oldEnergy (run demo demo_sim 0 demo_clk) = calcSystemEnergy demo Serial (- 1, - 1)"
    using inv(2) by (simp add: demo_run_fields)
  have p0': "proposal demo (simulationMode (args demo_sim)) (0, 0) 0 = (0, 0, - 1, (- 1, 0), 2)"
    using p0 bx by simp
  have p1': "proposal demo (simulationMode (args demo_sim)) (- 1, 0) 2 = (0, - 1, 1, (1, - 1), 4)"
    using p1 unfolding r0 .
  have md: "simulationMode (args drift_sim) = Serial" by (simp add: drift_sim_def demo_args_def)
  have cd: "energy_contracts drift (simulationMode (args drift_sim))"
    using drift_contracts md by simp
  have E0: "calcSystemEnergy drift (simulationMode (args drift_sim)) (box drift_sim) = 1"
    by (simp add: md calcSystemEnergy_def drift_def drift_energy_def drift_sim_def)
  have re: "rounding_errors drift (calcSystemEnergy drift (simulationMode (args drift_sim)) (box drift_sim))
     (steps (run drift drift_sim 0 demo_clk)) = 1 / 2 ^ 53"
    unfolding E0 by (rule drift_rounding_errors)
  note td = C3_bookkeeping[where C = drift and sim = drift_sim and g = 0 and clk = demo_clk]
  from td cd have "\<bar>oldEnergy (run drift drift_sim 0 demo_clk) -
      calcSystemEnergy drift (simulationMode (args drift_sim)) (cur_box (run drift drift_sim 0 demo_clk))\<bar>
     \<le> rounding_errors drift (calcSystemEnergy drift (simulationMode (args drift_sim)) (box drift_sim))
          (steps (run drift drift_sim 0 demo_clk))"
    by blast
  then have bd: "\<bar>oldEnergy (run drift drift_sim 0 demo_clk) -
      calcSystemEnergy drift (simulationMode (args drift_sim)) (cur_box (run drift drift_sim 0 demo_clk))\<bar>
     \<le> 1 / 2 ^ 53"
    unfolding re .
  note facts = p0' a0 f1 p1' a1 f2 c demo_round m1 m2 cd re bd
  show ?thesis
    by (intro conjI) (rule facts)+
qed

text \<open>C4, as the code has it. If \<open>simSteps \<ge> 0\<close> and both \<open>stepStart\<close> and
  \<open>stepStart + simSteps\<close> are values of \<open>int\<close>, the loop with its \<open>int\<close> loop variable ends
  without overflow and is the loop body applied to the indices
  \<open>stepStart, ..., stepStart + simSteps - 1\<close>, in this order and each once: \<open>simSteps\<close>
  iterations, after which \<open>accepted + rejected = simSteps\<close>; the line printed right after the
  loop reports the index \<open>stepStart + simSteps\<close>.\<close>

theorem C4_loop_runs_simSteps_iterations:
  assumes "0 \<le> simSteps sim" "INT_MIN \<le> stepStart sim" "stepStart sim + simSteps sim \<le> INT_MAX"
  shows "run_int C sim g clk = Inr (run C sim g clk) \<and>
         loop_int C sim (kT_of C sim) (baseStateFile_of (args sim)) (stepStart sim) (before_loop C sim g) =
           Inr (fold (\<lambda>m. loop_body C sim (kT_of C sim) (baseStateFile_of (args sim)) m)
                  [stepStart sim .. stepStart sim + simSteps sim - 1] (before_loop C sim g)) \<and>
         length [stepStart sim .. stepStart sim + simSteps sim - 1] = nat (simSteps sim) \<and>
         accepted (run C sim g clk) + rejected (run C sim g clk) = simSteps sim \<and>
         map sr_move (steps (run C sim g clk)) = [stepStart sim .. stepStart sim + simSteps sim - 1] \<and>
         length (steps (run C sim g clk)) = nat (simSteps sim) \<and>
         out (run C sim g clk) =
           out (fold (\<lambda>m. loop_body C sim (kT_of C sim) (baseStateFile_of (args sim)) m)
                  [stepStart sim .. stepStart sim + simSteps sim - 1] (before_loop C sim g))
           @ after_loop C sim clk (baseStateFile_of (args sim))
               (fold (\<lambda>m. loop_body C sim (kT_of C sim) (baseStateFile_of (args sim)) m)
                  [stepStart sim .. stepStart sim + simSteps sim - 1] (before_loop C sim g)) \<and>
         hd (after_loop C sim clk (baseStateFile_of (args sim))
               (fold (\<lambda>m. loop_body C sim (kT_of C sim) (baseStateFile_of (args sim)) m)
                  [stepStart sim .. stepStart sim + simSteps sim - 1] (before_loop C sim g))) =
           Cout [S ''Step '', I (stepStart sim + simSteps sim),
                 S ('':'' @ [CHR 0x0D] @ ''\<newline>--Current Energy: ''),
                 R (oldEnergy (run C sim g clk)), Endl]"
proof (intro conjI)
  show "run_int C sim g clk = Inr (run C sim g clk)"
    by (rule run_int_in_range[OF assms])
  show "loop_int C sim (kT_of C sim) (baseStateFile_of (args sim)) (stepStart sim) (before_loop C sim g) =
           Inr (fold (\<lambda>m. loop_body C sim (kT_of C sim) (baseStateFile_of (args sim)) m)
                  [stepStart sim .. stepStart sim + simSteps sim - 1] (before_loop C sim g))"
    by (simp add: loop_int_in_range[OF assms(3)] loop_fold)
  show "length [stepStart sim .. stepStart sim + simSteps sim - 1] = nat (simSteps sim)"
    by simp
  show "accepted (run C sim g clk) + rejected (run C sim g clk) = simSteps sim"
    using run_counters(3)[of C sim g clk] assms(1) by simp
  show m: "map sr_move (steps (run C sim g clk)) = [stepStart sim .. stepStart sim + simSteps sim - 1]"
    by (simp add: run_steps loop_moves)
  have "length (steps (run C sim g clk)) = length (map sr_move (steps (run C sim g clk)))" by simp
  also have "\<dots> = length [stepStart sim .. stepStart sim + simSteps sim - 1]" by (simp only: m)
  also have "\<dots> = nat (simSteps sim)" by simp
  finally show "length (steps (run C sim g clk)) = nat (simSteps sim)" .
  show "out (run C sim g clk) =
           out (fold (\<lambda>m. loop_body C sim (kT_of C sim) (baseStateFile_of (args sim)) m)
                  [stepStart sim .. stepStart sim + simSteps sim - 1] (before_loop C sim g))
           @ after_loop C sim clk (baseStateFile_of (args sim))
               (fold (\<lambda>m. loop_body C sim (kT_of C sim) (baseStateFile_of (args sim)) m)
                  [stepStart sim .. stepStart sim + simSteps sim - 1] (before_loop C sim g))"
    by (simp add: run_out loop_fold)
  show "hd (after_loop C sim clk (baseStateFile_of (args sim))
               (fold (\<lambda>m. loop_body C sim (kT_of C sim) (baseStateFile_of (args sim)) m)
                  [stepStart sim .. stepStart sim + simSteps sim - 1] (before_loop C sim g))) =
           Cout [S ''Step '', I (stepStart sim + simSteps sim),
                 S ('':'' @ [CHR 0x0D] @ ''\<newline>--Current Energy: ''),
                 R (oldEnergy (run C sim g clk)), Endl]"
    by (simp add: after_loop_def Let_def run_fields loop_fold)
qed

text \<open>C4 as stated fails: resumed at step \<open>2147483647\<close> for one step, the loop variable is
  incremented beyond \<open>INT_MAX\<close>; no terminal step is reached.\<close>

theorem C4_counterexample:
  "0 \<le> simSteps demo_sim_max \<and> stepStart demo_sim_max = INT_MAX \<and>
   run_int demo demo_sim_max 0 demo_clk = Inl SignedOverflow"
  by (simp add: run_int_def loop_int.simps Let_def INT_MAX_def INT_MIN_def demo_sim_max_def)

text \<open>Three steps of the small system from step 0.\<close>

theorem C4_witness:
  "0 \<le> simSteps demo_sim \<and> INT_MIN \<le> stepStart demo_sim \<and>
   stepStart demo_sim + simSteps demo_sim \<le> INT_MAX \<and>
   run_int demo demo_sim 0 demo_clk = Inr (run demo demo_sim 0 demo_clk) \<and>
   accepted (run demo demo_sim 0 demo_clk) + rejected (run demo demo_sim 0 demo_clk) = 3 \<and>
   map sr_move (steps (run demo demo_sim 0 demo_clk)) = [0, 1, 2]"
proof -
  have h: "0 \<le> simSteps demo_sim" "INT_MIN \<le> stepStart demo_sim"
      "stepStart demo_sim + simSteps demo_sim \<le> INT_MAX"
    by (simp_all add: INT_MIN_def INT_MAX_def)
  have u: "[stepStart demo_sim .. stepStart demo_sim + simSteps demo_sim - 1] = [0, 1, 2]"
    by (simp add: upto.simps)
  show ?thesis
    using C4_loop_runs_simSteps_iterations[OF h, of demo 0 demo_clk] h u by simp
qed

text \<open>C5, as the code has it. The division by \<open>accepted + rejected\<close> is not guarded. When
  \<open>simSteps \<le> 0\<close> both counters are zero at the end of the run, the quotient is
  \<open>0.0 / 0\<close> in floating point, and NaN is what the line on standard output and the results
  file carry. When \<open>simSteps > 0\<close> the sum of the counters is \<open>simSteps\<close> and the ratio printed
  is \<open>100 * accepted / simSteps\<close>.\<close>

theorem C5_ratio_division_unguarded:
  "(simSteps sim \<le> 0 \<longrightarrow>
      accepted (run C sim g clk) = 0 \<and> rejected (run C sim g clk) = 0 \<and>
      Cout [S ''Acceptance Ratio: '', F NaN, S ''%'', Endl] \<in> set (out (run C sim g clk)) \<and>
      (\<exists>items. ResultsFile (resultsName_of (args sim)) items \<in> set (out (run C sim g clk)) \<and>
         ratios items = [NaN])) \<and>
   (0 < simSteps sim \<longrightarrow>
      Cout [S ''Acceptance Ratio: '',
            F (Fin (100 * of_int (accepted (run C sim g clk)) / of_int (simSteps sim))),
            S ''%'', Endl] \<in> set (out (run C sim g clk)))"
proof (intro conjI impI)
  assume z: "simSteps sim \<le> 0"
  then have s: "accepted (run C sim g clk) + rejected (run C sim g clk) = 0"
    using run_counters(3)[of C sim g clk] by simp
  then show a: "accepted (run C sim g clk) = 0" and r: "rejected (run C sim g clk) = 0"
    using run_counters(1,2)[of C sim g clk] by simp_all
  show "Cout [S ''Acceptance Ratio: '', F NaN, S ''%'', Endl] \<in> set (out (run C sim g clk))"
    using run_out_ratio[of C sim g clk] a r by (simp add: fdiv_def)
  show "\<exists>items. ResultsFile (resultsName_of (args sim)) items \<in> set (out (run C sim g clk)) \<and>
         ratios items = [NaN]"
    using run_out_results[of sim C g clk] a r by (simp add: fdiv_def)
next
  assume p: "0 < simSteps sim"
  then have "accepted (run C sim g clk) + rejected (run C sim g clk) = simSteps sim"
    using run_counters(3)[of C sim g clk] by simp
  then show "Cout [S ''Acceptance Ratio: '',
            F (Fin (100 * of_int (accepted (run C sim g clk)) / of_int (simSteps sim))),
            S ''%'', Endl] \<in> set (out (run C sim g clk))"
    using run_out_ratio[of C sim g clk] p by (simp add: fdiv_def)
qed

text \<open>C5 as stated fails: a run of zero steps of the small system reports NaN, on standard
  output and in the results file, not a sentinel.\<close>

theorem C5_counterexample:
  "simSteps demo_sim0 = 0 \<and>
   Cout [S ''Acceptance Ratio: '', F NaN, S ''%'', Endl] \<in> set (out (run demo demo_sim0 0 demo_clk)) \<and>
   ResultsFile ''run.results''
     (results_contents demo demo_sim0 demo_clk 2 (before_loop demo demo_sim0 0))
     \<in> set (out (run demo demo_sim0 0 demo_clk)) \<and>
   ratios (results_contents demo demo_sim0 demo_clk 2 (before_loop demo demo_sim0 0)) = [NaN]"
  by (simp add: run_def Let_def loop.simps after_loop_def fdiv_def before_loop_def demo_clk_def
        ratios_results_contents resultsName_of_def RESULTS_FILE_DEFAULT_def RESULTS_FILE_EXT_def
        demo_sim0_def demo_args_def)

text \<open>Zero steps of the small system report NaN; three steps, two of them accepted, report
  200/3.\<close>

theorem C5_witness:
  "simSteps demo_sim0 \<le> 0 \<and>
   accepted (run demo demo_sim0 0 demo_clk) = 0 \<and> rejected (run demo demo_sim0 0 demo_clk) = 0 \<and>
   Cout [S ''Acceptance Ratio: '', F NaN, S ''%'', Endl] \<in> set (out (run demo demo_sim0 0 demo_clk)) \<and>
   (\<exists>items. ResultsFile (resultsName_of (args demo_sim0)) items \<in> set (out (run demo demo_sim0 0 demo_clk)) \<and>
      ratios items = [NaN]) \<and>
   0 < simSteps demo_sim \<and>
   Cout [S ''Acceptance Ratio: '', F (Fin (200 / 3)), S ''%'', Endl]
     \<in> set (out (run demo demo_sim 0 demo_clk))"
proof -
  have z: "simSteps demo_sim0 \<le> 0" by simp
  have p: "0 < simSteps demo_sim" by simp
  note t0 = C5_ratio_division_unguarded[of demo_sim0 demo 0 demo_clk]
  note t1 = C5_ratio_division_unguarded[of demo_sim demo 0 demo_clk]
  from t1 p have "Cout [S ''Acceptance Ratio: '',
            F (Fin (100 * of_int (accepted (run demo demo_sim 0 demo_clk)) / of_int (simSteps demo_sim))),
            S ''%'', Endl] \<in> set (out (run demo demo_sim 0 demo_clk))"
    by blast
  then have "Cout [S ''Acceptance Ratio: '', F (Fin (200 / 3)), S ''%'', Endl]
     \<in> set (out (run demo demo_sim 0 demo_clk))"
    by (simp add: demo_run_fields)
  with t0 z p show ?thesis by blast
qed

text \<open>C6. Provided \<open>toString\<close> succeeds on every step index, the state files written inside
  the loop are, in order, those of the indices \<open>m\<close> of the loop for which \<open>stateInterval\<close> is
  positive and \<open>m - stepStart\<close> is a positive multiple of it: one file for each such index and
  no other. In particular none is written at offset zero, nor when the interval is zero or
  negative.\<close>

theorem C6_checkpoint_cadence:
  assumes "\<forall>m. toString C m \<noteq> None"
  shows "map fst (checkpoints (out (loop C sim (kT_of C sim) (baseStateFile_of (args sim))
                                 (stepStart sim) (before_loop C sim g)))) =
         filter (\<lambda>m. 0 < stateInterval (args sim) \<and> 0 < m - stepStart sim \<and>
                     stateInterval (args sim) dvd (m - stepStart sim))
           [stepStart sim .. stepStart sim + simSteps sim - 1] \<and>
         (\<forall>m. m \<in> set (map fst (checkpoints (out (loop C sim (kT_of C sim) (baseStateFile_of (args sim))
                                                (stepStart sim) (before_loop C sim g))))) \<longleftrightarrow>
              stepStart sim \<le> m \<and> m < stepStart sim + simSteps sim \<and>
              0 < stateInterval (args sim) \<and> 0 < m - stepStart sim \<and>
              stateInterval (args sim) dvd (m - stepStart sim))"
proof -
  have eq: "map fst (checkpoints (out (loop C sim (kT_of C sim) (baseStateFile_of (args sim))
                                 (stepStart sim) (before_loop C sim g)))) =
         filter (\<lambda>m. 0 < stateInterval (args sim) \<and> 0 < m - stepStart sim \<and>
                     stateInterval (args sim) dvd (m - stepStart sim))
           [stepStart sim .. stepStart sim + simSteps sim - 1]"
    using loop_checkpoints[OF assms, of sim "kT_of C sim" "baseStateFile_of (args sim)" "stepStart sim"
            "before_loop C sim g"]
    by simp
  show ?thesis
    unfolding eq by auto
qed

text \<open>With interval 2 and three steps, the small system writes one state file in the loop,
  at step 2.\<close>

theorem C6_witness:
  "(\<forall>m. toString demo m \<noteq> None) \<and>
   map fst (checkpoints (out (loop demo demo_sim (kT_of demo demo_sim) (baseStateFile_of (args demo_sim))
                                (stepStart demo_sim) (before_loop demo demo_sim 0)))) = [2]"
proof -
  have "map fst (checkpoints (out (loop demo demo_sim (kT_of demo demo_sim) (baseStateFile_of (args demo_sim))
                                (stepStart demo_sim) (before_loop demo demo_sim 0)))) =
        filter (\<lambda>m. 0 < stateInterval (args demo_sim) \<and> 0 < m - stepStart demo_sim \<and>
                     stateInterval (args demo_sim) dvd (m - stepStart demo_sim))
           [stepStart demo_sim .. stepStart demo_sim + simSteps demo_sim - 1]"
    using C6_checkpoint_cadence[OF demo_toString, of demo_sim 0] by blast
  also have "\<dots> = [2]"
    by (simp add: demo_defs upto.simps)
  finally show ?thesis using demo_toString by blast
qed

text \<open>C7. Provided \<open>toString\<close> renders the terminal index \<open>stepStart + simSteps\<close> as \<open>s\<close>, the
  state files of a run are those written inside the loop followed, if \<open>stateInterval \<ge> 0\<close>,
  by exactly one more, for the terminal index, named by the simulation name (\<open>untitled\<close> when
  the name is empty), an underscore, \<open>s\<close> and \<open>.state\<close>; if \<open>stateInterval < 0\<close> nothing
  follows.\<close>

theorem C7_final_checkpoint:
  assumes "toString C (stepStart sim + simSteps sim) = Some s"
  shows "checkpoints (out (run C sim g clk)) =
           checkpoints (out (loop C sim (kT_of C sim) (baseStateFile_of (args sim))
                               (stepStart sim) (before_loop C sim g))) @
           (if 0 \<le> stateInterval (args sim)
            then [(stepStart sim + simSteps sim,
                   (if simulationName (args sim) \<noteq> [] then simulationName (args sim) else ''untitled'')
                   @ ''_'' @ s @ ''.state'')]
            else [])"
  using assms by (simp add: run_out checkpoints_after_loop baseStateFile_of_def)

text \<open>The small system writes \<open>untitled_2.state\<close> in the loop and \<open>untitled_3.state\<close> after
  it.\<close>

theorem C7_witness:
  "toString demo (stepStart demo_sim + simSteps demo_sim) = Some ''3'' \<and>
   checkpoints (out (run demo demo_sim 0 demo_clk)) = [(2, ''untitled_2.state''), (3, ''untitled_3.state'')]"
proof -
  have h: "toString demo (stepStart demo_sim + simSteps demo_sim) = Some ''3''"
    by (simp add: demo_def show_int_def show_nat.simps)
  show ?thesis
    using C7_final_checkpoint[OF h, of 0 demo_clk] h
    by (simp add: demo_loop_state) (simp add: demo_defs)
qed

text \<open>C8. If the factory of the selected mode returns no box, the constructor ends the
  process: the diagnostic goes to \<open>std::cerr\<close> and the exit status is \<open>EXIT_FAILURE\<close>.
  Otherwise the random source is seeded with \<open>randomseed\<close> of the environment of the box,
  and \<open>simSteps\<close> is \<open>stepCount\<close> of the arguments when that is positive and the value the
  factory stored otherwise.\<close>

theorem C8_constructor:
  "((if simulationMode a = Parallel
     then ParallelCalcs_createBox C (filePath a) (fileType a) (0, n)
     else SerialCalcs_createBox C (filePath a) (fileType a) (0, n)) = (None, ss, st) \<longrightarrow>
      Simulation_ctor C a n =
        Inl ([Cerr [S ''Error: Unable to initialize simulation Box'', Endl]], EXIT_FAILURE)) \<and>
   ((if simulationMode a = Parallel
     then ParallelCalcs_createBox C (filePath a) (fileType a) (0, n)
     else SerialCalcs_createBox C (filePath a) (fileType a) (0, n)) = (Some b, ss, st) \<longrightarrow>
      (\<exists>sim g evs. Simulation_ctor C a n = Inr (sim, g, evs) \<and>
         g = seed C (randomseed (getEnvironment C b)) \<and>
         args sim = a \<and> box sim = b \<and> stepStart sim = ss \<and>
         simSteps sim = (if 0 < stepCount a then stepCount a else st)))"
  by (simp add: Simulation_ctor_def)

text \<open>For the small system: the parallel factory returns no box; the serial one returns a box
  and 3 steps, which a step count of 5 replaces and a step count of 0 does not.\<close>

theorem C8_witness:
  "(if simulationMode (demo_args\<lparr>simulationMode := Parallel\<rparr>) = Parallel
    then ParallelCalcs_createBox demo (filePath (demo_args\<lparr>simulationMode := Parallel\<rparr>))
           (fileType (demo_args\<lparr>simulationMode := Parallel\<rparr>)) (0, 7)
    else SerialCalcs_createBox demo (filePath (demo_args\<lparr>simulationMode := Parallel\<rparr>))
           (fileType (demo_args\<lparr>simulationMode := Parallel\<rparr>)) (0, 7)) = (None, 0, 7) \<and>
   Simulation_ctor demo (demo_args\<lparr>simulationMode := Parallel\<rparr>) 7 =
     Inl ([Cerr [S ''Error: Unable to initialize simulation Box'', Endl]], EXIT_FAILURE) \<and>
   (if simulationMode (demo_args\<lparr>stepCount := 5\<rparr>) = Parallel
    then ParallelCalcs_createBox demo (filePath (demo_args\<lparr>stepCount := 5\<rparr>))
           (fileType (demo_args\<lparr>stepCount := 5\<rparr>)) (0, 7)
    else SerialCalcs_createBox demo (filePath (demo_args\<lparr>stepCount := 5\<rparr>))
           (fileType (demo_args\<lparr>stepCount := 5\<rparr>)) (0, 7)) = (Some (0, 0), 0, 3) \<and>
   (\<exists>sim g evs. Simulation_ctor demo (demo_args\<lparr>stepCount := 5\<rparr>) 7 = Inr (sim, g, evs) \<and>
      g = seed demo 12345 \<and> box sim = (0, 0) \<and> stepStart sim = 0 \<and> simSteps sim = 5) \<and>
   (if simulationMode demo_args = Parallel
    then ParallelCalcs_createBox demo (filePath demo_args) (fileType demo_args) (0, 7)
    else SerialCalcs_createBox demo (filePath demo_args) (fileType demo_args) (0, 7)) = (Some (0, 0), 0, 3) \<and>
   (\<exists>sim g evs. Simulation_ctor demo demo_args 7 = Inr (sim, g, evs) \<and>
      g = seed demo 12345 \<and> box sim = (0, 0) \<and> stepStart sim = 0 \<and> simSteps sim = 3)"
proof -
  have n: "(if simulationMode (demo_args\<lparr>simulationMode := Parallel\<rparr>) = Parallel
    then ParallelCalcs_createBox demo (filePath (demo_args\<lparr>simulationMode := Parallel\<rparr>))
           (fileType (demo_args\<lparr>simulationMode := Parallel\<rparr>)) (0, 7)
    else SerialCalcs_createBox demo (filePath (demo_args\<lparr>simulationMode := Parallel\<rparr>))
           (fileType (demo_args\<lparr>simulationMode := Parallel\<rparr>)) (0, 7)) = (None, 0, 7)"
    by (simp add: demo_def)
  have s5: "(if simulationMode (demo_args\<lparr>stepCount := 5\<rparr>) = Parallel
    then ParallelCalcs_createBox demo (filePath (demo_args\<lparr>stepCount := 5\<rparr>))
           (fileType (demo_args\<lparr>stepCount := 5\<rparr>)) (0, 7)
    else SerialCalcs_createBox demo (filePath (demo_args\<lparr>stepCount := 5\<rparr>))
           (fileType (demo_args\<lparr>stepCount := 5\<rparr>)) (0, 7)) = (Some (0, 0), 0, 3)"
    by (simp add: demo_def demo_args_def)
  have s0: "(if simulationMode demo_args = Parallel
    then ParallelCalcs_createBox demo (filePath demo_args) (fileType demo_args) (0, 7)
    else SerialCalcs_createBox demo (filePath demo_args) (fileType demo_args) (0, 7)) = (Some (0, 0), 0, 3)"
    by (simp add: demo_def demo_args_def)
  note t1 = C8_constructor[of "demo_args\<lparr>simulationMode := Parallel\<rparr>" demo 7 0 7 "(0, 0)"]
  note t2 = C8_constructor[of "demo_args\<lparr>stepCount := 5\<rparr>" demo 7 0 3 "(0, 0)"]
  note t3 = C8_constructor[of demo_args demo 7 0 3 "(0, 0)"]
  have r1: "Simulation_ctor demo (demo_args\<lparr>simulationMode := Parallel\<rparr>) 7 =
     Inl ([Cerr [S ''Error: Unable to initialize simulation Box'', Endl]], EXIT_FAILURE)"
    using t1 n by blast
  have e: "randomseed (getEnvironment demo (0, 0)) = 12345" by (simp add: demo_def demo_env_def)
  have r2: "\<exists>sim g evs. Simulation_ctor demo (demo_args\<lparr>stepCount := 5\<rparr>) 7 = Inr (sim, g, evs) \<and>
      g = seed demo 12345 \<and> box sim = (0, 0) \<and> stepStart sim = 0 \<and> simSteps sim = 5"
    using t2 s5 e by auto
  have r3: "\<exists>sim g evs. Simulation_ctor demo demo_args 7 = Inr (sim, g, evs) \<and>
      g = seed demo 12345 \<and> box sim = (0, 0) \<and> stepStart sim = 0 \<and> simSteps sim = 3"
    using t3 s0 e by (auto simp add: demo_args_def)
  from n s5 s0 r1 r2 r3 show ?thesis by blast
qed

text \<open>C9. The sequence of accept/reject decisions and the final tracked energy of a run are
  determined by the collaborators, the mode, the box, the state of the seeded random source
  and the number of steps: two runs that agree on these agree on both, whatever the clock and
  the calendar answer, and whatever the starting step, the simulation name and the reporting
  intervals are.\<close>

theorem C9_deterministic:
  assumes "simulationMode (args sim1) = simulationMode (args sim2)"
    and "box sim1 = box sim2"
    and "simSteps sim1 = simSteps sim2"
  shows "map sr_accept (steps (run C sim1 g clk1)) = map sr_accept (steps (run C sim2 g clk2)) \<and>
         oldEnergy (run C sim1 g clk1) = oldEnergy (run C sim2 g clk2)"
proof -
  have k: "kT_of C sim1 = kT_of C sim2" using assms(2) by (simp add: kT_of_def)
  have o: "observable (before_loop C sim1 g) = observable (before_loop C sim2 g)"
    using assms(1,2) by (simp add: observable_def)
  have "observable (loop C sim1 (kT_of C sim1) (baseStateFile_of (args sim1)) (stepStart sim1) (before_loop C sim1 g))
      = observable (loop C sim2 (kT_of C sim1) (baseStateFile_of (args sim2)) (stepStart sim2) (before_loop C sim2 g))"
    by (rule loop_observable[OF assms(1) _ o]) (use assms(3) in simp)
  then have e: "observable (run C sim1 g clk1) = observable (run C sim2 g clk2)"
    by (simp add: observable_def run_steps run_fields k)
  have "map sr_accept (steps (run C sim1 g clk1)) =
        map (\<lambda>t. fst (snd (snd (snd (snd t))))) (snd (snd (snd (snd (snd (observable (run C sim1 g clk1)))))))"
    by (simp add: observable_def comp_def)
  also have "\<dots> = map (\<lambda>t. fst (snd (snd (snd (snd t))))) (snd (snd (snd (snd (snd (observable (run C sim2 g clk2)))))))"
    by (simp only: e)
  also have "\<dots> = map sr_accept (steps (run C sim2 g clk2))"
    by (simp add: observable_def comp_def)
  finally have 1: "map sr_accept (steps (run C sim1 g clk1)) = map sr_accept (steps (run C sim2 g clk2))" .
  have 2: "oldEnergy (run C sim1 g clk1) = oldEnergy (run C sim2 g clk2)"
    using e by (simp add: observable_def)
  from 1 2 show ?thesis by simp
qed

text \<open>Two runs of the small system with different starting steps, names, intervals and clock
  readings take the same decisions and end with the same energy.\<close>

theorem C9_witness:
  "simulationMode (args demo_sim) = simulationMode (args demo_sim2) \<and>
   box demo_sim = box demo_sim2 \<and> simSteps demo_sim = simSteps demo_sim2 \<and>
   stepStart demo_sim \<noteq> stepStart demo_sim2 \<and> demo_clk \<noteq> demo_clk2 \<and>
   map sr_accept (steps (run demo demo_sim2 0 demo_clk2)) = [True, False, True] \<and>
   oldEnergy (run demo demo_sim2 0 demo_clk2) = - 1"
proof -
  have h: "simulationMode (args demo_sim) = simulationMode (args demo_sim2)"
      "box demo_sim = box demo_sim2" "simSteps demo_sim = simSteps demo_sim2"
    by (simp_all add: demo_sim_def demo_sim2_def demo_args_def)
  have d: "stepStart demo_sim \<noteq> stepStart demo_sim2" "demo_clk \<noteq> demo_clk2"
    by (simp_all add: demo_sim_def demo_sim2_def demo_clk_def demo_clk2_def)
  from C9_deterministic[OF h, of demo 0 demo_clk demo_clk2]
  have "map sr_accept (steps (run demo demo_sim2 0 demo_clk2)) = [True, False, True]"
       "oldEnergy (run demo demo_sim2 0 demo_clk2) = - 1"
    by (simp_all add: demo_run_steps demo_run_fields)
  with h d show ?thesis by simp
qed

text \<open>C10. When the simulation name is empty, the files a run writes are the state files of
  the loop, each named \<open>untitled_<step>.state\<close>, then (if \<open>stateInterval \<ge> 0\<close> and \<open>toString\<close>
  succeeds) the final state file \<open>untitled_<terminal step>.state\<close>, then \<open>run.results\<close> and
  \<open>run.pdb\<close>: the state files use the base name \<open>untitled\<close>, the results and coordinate
  files the base name \<open>run\<close>.\<close>

theorem C10_default_names_disagree:
  assumes "simulationName (args sim) = []"
  shows "file_names (out (run C sim g clk)) =
           file_names (out (loop C sim (kT_of C sim) ''untitled'' (stepStart sim) (before_loop C sim g)))
           @ (if 0 \<le> stateInterval (args sim)
              then (case toString C (stepStart sim + simSteps sim) of None \<Rightarrow> []
                    | Some s \<Rightarrow> [''untitled_'' @ s @ ''.state''])
              else [])
           @ [''run.results'', ''run.pdb''] \<and>
         (\<forall>p\<in>set (file_names (out (loop C sim (kT_of C sim) ''untitled'' (stepStart sim)
                                      (before_loop C sim g)))).
            \<exists>m s. toString C m = Some s \<and> p = ''untitled_'' @ s @ ''.state'')"
proof
  have b: "baseStateFile_of (args sim) = ''untitled''"
    using assms by (simp add: baseStateFile_of_def)
  show "file_names (out (run C sim g clk)) =
           file_names (out (loop C sim (kT_of C sim) ''untitled'' (stepStart sim) (before_loop C sim g)))
           @ (if 0 \<le> stateInterval (args sim)
              then (case toString C (stepStart sim + simSteps sim) of None \<Rightarrow> []
                    | Some s \<Rightarrow> [''untitled_'' @ s @ ''.state''])
              else [])
           @ [''run.results'', ''run.pdb'']"
    using assms
    by (simp add: run_out b file_names_after_loop resultsName_of_def RESULTS_FILE_DEFAULT_def
          RESULTS_FILE_EXT_def split: option.splits)
  show "\<forall>p\<in>set (file_names (out (loop C sim (kT_of C sim) ''untitled'' (stepStart sim)
                                      (before_loop C sim g)))).
            \<exists>m s. toString C m = Some s \<and> p = ''untitled_'' @ s @ ''.state''"
    using loop_file_names[where C = C and sim = sim and kT = "kT_of C sim" and base = "''untitled''"
            and move = "stepStart sim" and st = "before_loop C sim g"]
    by simp
qed

text \<open>The files of the small system, whose name is empty.\<close>

theorem C10_witness:
  "simulationName (args demo_sim) = [] \<and>
   file_names (out (run demo demo_sim 0 demo_clk)) =
     [''untitled_2.state'', ''untitled_3.state'', ''run.results'', ''run.pdb'']"
proof -
  have h: "simulationName (args demo_sim) = []" by (simp add: demo_defs)
  have s: "toString demo (stepStart demo_sim + simSteps demo_sim) = Some ''3''"
    by (simp add: demo_def show_int_def show_nat.simps)
  have "file_names (out (run demo demo_sim 0 demo_clk)) =
     [''untitled_2.state'', ''untitled_3.state'', ''run.results'', ''run.pdb'']"
    using C10_default_names_disagree[OF h, of demo 0 demo_clk] s
    by (simp add: demo_loop_state) (simp add: demo_defs)
  with h show ?thesis by simp
qed

end
